theory Spec2Isabelle
  imports Complex_Main "HOL-Library.Product_Lexorder"
begin

section \<open>Python values and errors\<close>

text \<open>
  Exceptions of the Python source are values: every function that can raise returns
  \<open>error + 'a\<close>, with \<open>Inl\<close> for the exception. The message of an exception is kept
  where the source gives one.
\<close>

datatype error =
    ValueError string
  | KeyError
  | IndexError
  | TypeError
  | AssertionError
  | OverflowError
  | Exception string

text \<open>
  Values that travel through JSON dictionaries. A Python \<open>dict\<close> is an association
  list in insertion order whose keys are distinct; \<open>dict_get\<close> is \<open>d.get(k)\<close> and
  \<open>dict_set\<close> is \<open>d[k] = v\<close> (a new key goes to the end, an old key keeps its place).
\<close>

datatype json =
    JNull
  | JBool bool
  | JInt int
  | JStr string
  | JList "json list"
  | JDict "(string \<times> json) list"

definition dict_get :: "('k \<times> 'v) list \<Rightarrow> 'k \<Rightarrow> 'v option" where
  "dict_get d k = map_of d k"

fun dict_set :: "('k \<times> 'v) list \<Rightarrow> 'k \<Rightarrow> 'v \<Rightarrow> ('k \<times> 'v) list" where
  "dict_set [] k v = [(k, v)]"
| "dict_set ((k', v') # d) k v = (if k' = k then (k, v) # d else (k', v') # dict_set d k v)"

definition dict_index :: "('k \<times> 'v) list \<Rightarrow> 'k \<Rightarrow> error + 'v" where
  "dict_index d k = (case dict_get d k of None \<Rightarrow> Inl KeyError | Some v \<Rightarrow> Inr v)"

text \<open>
  \<open>xs[i]\<close> on a Python list: the indices \<open>0 .. len - 1\<close> read from the front, the
  indices \<open>- len .. - 1\<close> from the back, every other index raises IndexError.
\<close>

definition py_index :: "'a list \<Rightarrow> int \<Rightarrow> error + 'a" where
  "py_index xs i =
     (if 0 \<le> i \<and> i < int (length xs) then Inr (xs ! nat i)
      else if i < 0 \<and> - int (length xs) \<le> i then Inr (xs ! nat (int (length xs) + i))
      else Inl IndexError)"

section \<open>Strings\<close>

text \<open>
  \<open>s.split(d)\<close> for a one-character separator: always at least one part.
\<close>

fun split_on :: "'c \<Rightarrow> 'c list \<Rightarrow> 'c list list" where
  "split_on d [] = [[]]"
| "split_on d (c # cs) =
     (if c = d then [] # split_on d cs
      else (case split_on d cs of
              [] \<Rightarrow> [[c]]
            | p # ps \<Rightarrow> (c # p) # ps))"




section \<open>Scheduling_Utilities.ParseHxM\<close>

text \<open>
  The argument of \<open>ParseHxM\<close> is a Python string: a list of Unicode code points, each a
  natural number. \<open>codes\<close> gives the code points of a string of 8-bit characters.
\<close>

definition codes :: "string \<Rightarrow> nat list" where
  "codes s = map of_char s"

text \<open>
  \<open>int(s)\<close> on a string, base 10, as CPython reads it. The string is first brought to
  ASCII: a code point below 127 stays, a Unicode white space becomes a blank, a Unicode
  decimal digit becomes the ASCII digit of its value, and any other code point makes the
  string unreadable. Then ASCII white space is stripped on both sides, one sign may lead,
  then come decimal digits, where single underscores may stand between digits.

  The white space of Unicode from 127 on is the list below. The decimal digits of Unicode
  are a table of the interpreter's Unicode database; the table is the parameter
  \<open>todecimal\<close>, which gives the value of a code point that is a decimal digit.
\<close>

definition ascii_space :: "nat \<Rightarrow> bool" where
  "ascii_space c = (c \<in> {9, 10, 11, 12, 13, 32})"

definition unicode_space :: "nat \<Rightarrow> bool" where
  "unicode_space c =
     (c \<in> {133, 160, 5760, 8232, 8233, 8239, 8287, 12288} \<or> (8192 \<le> c \<and> c \<le> 8202))"

definition to_ascii :: "(nat \<Rightarrow> nat option) \<Rightarrow> nat \<Rightarrow> nat option" where
  "to_ascii todecimal c =
     (if c < 127 then Some c
      else if unicode_space c then Some 32
      else (case todecimal c of
              None \<Rightarrow> None
            | Some d \<Rightarrow> if d < 10 then Some (48 + d) else None))"

definition ascii_digit :: "nat \<Rightarrow> bool" where
  "ascii_digit c = (48 \<le> c \<and> c \<le> 57)"

definition ascii_val :: "nat \<Rightarrow> int" where
  "ascii_val c = int c - 48"

definition py_strip :: "nat list \<Rightarrow> nat list" where
  "py_strip s = rev (dropWhile ascii_space (rev (dropWhile ascii_space s)))"

fun py_digits :: "bool \<Rightarrow> int \<Rightarrow> nat list \<Rightarrow> int option" where
  "py_digits after_digit acc [] = (if after_digit then Some acc else None)"
| "py_digits after_digit acc (c # cs) =
     (if ascii_digit c then py_digits True (10 * acc + ascii_val c) cs
      else if c = 95 \<and> after_digit then py_digits False acc cs
      else None)"

definition ascii_int :: "nat list \<Rightarrow> int option" where
  "ascii_int s =
     (case py_strip s of
        [] \<Rightarrow> None
      | c # cs \<Rightarrow>
          if c = 45 then map_option uminus (py_digits False 0 cs)
          else if c = 43 then py_digits False 0 cs
          else py_digits False 0 (c # cs))"

definition py_int :: "(nat \<Rightarrow> nat option) \<Rightarrow> nat list \<Rightarrow> int option" where
  "py_int todecimal s =
     (case those (map (to_ascii todecimal) s) of
        None \<Rightarrow> None
      | Some a \<Rightarrow> ascii_int a)"

text \<open>
  \<open>ParseHxM\<close>: the unpacking \<open>shh, smm = hhmm.split(":")\<close> raises ValueError unless there
  are exactly two parts; \<open>int\<close> raises ValueError on a string it cannot read.
\<close>

definition ParseHxM :: "(nat \<Rightarrow> nat option) \<Rightarrow> nat list \<Rightarrow> error + int" where
  "ParseHxM todecimal hhmm =
     (case split_on 58 hhmm of
        [shh, smm] \<Rightarrow>
          if length shh \<noteq> 1 \<and> length shh \<noteq> 2 then Inl (ValueError ''Invalid time format'')
          else if length smm \<noteq> 2 then Inl (ValueError ''Invalid time format'')
          else (case py_int todecimal shh of
                  None \<Rightarrow> Inl (ValueError ''invalid literal for int()'')
                | Some hh \<Rightarrow>
                    (case py_int todecimal smm of
                       None \<Rightarrow> Inl (ValueError ''invalid literal for int()'')
                     | Some mm \<Rightarrow>
                         if \<not> (0 \<le> hh \<and> hh < 24) then Inl (ValueError ''More than 23 hours'')
                         else if \<not> (0 \<le> mm \<and> mm < 60) then Inl (ValueError ''More than 60 minutes'')
                         else Inr (60 * hh + mm)))
      | _ \<Rightarrow> Inl (ValueError ''wrong number of values to unpack''))"

text \<open>
  The strings the specification speaks of: exactly one colon, an hour of one or two
  decimal digits below 24, a minute of two decimal digits below 60.
\<close>

definition decimal_value :: "nat list \<Rightarrow> int" where
  "decimal_value s = foldl (\<lambda>acc c. 10 * acc + ascii_val c) 0 s"

definition spec_ParseHxM :: "nat list \<Rightarrow> int option" where
  "spec_ParseHxM s =
     (case split_on 58 s of
        [shh, smm] \<Rightarrow>
          if (length shh = 1 \<or> length shh = 2) \<and> length smm = 2
             \<and> list_all ascii_digit (shh @ smm)
             \<and> decimal_value shh < 24 \<and> decimal_value smm < 60
          then Some (60 * decimal_value shh + decimal_value smm)
          else None
      | _ \<Rightarrow> None)"

text \<open>
  What \<open>int\<close> reads from a string of one or two code points. \<open>int_digit\<close> is the value of
  a code point that \<open>int\<close> takes for a digit (an ASCII digit, or a decimal digit of the
  table from 127 on), \<open>int_space\<close> holds of a code point that \<open>int\<close> strips. The string is
  read when it is digits only, or one digit with a sign or white space before it, or one
  digit with white space after it.
\<close>

definition int_digit :: "(nat \<Rightarrow> nat option) \<Rightarrow> nat \<Rightarrow> int option" where
  "int_digit todecimal c =
     (if c < 127 then (if ascii_digit c then Some (ascii_val c) else None)
      else if unicode_space c then None
      else (case todecimal c of
              None \<Rightarrow> None
            | Some d \<Rightarrow> if d < 10 then Some (int d) else None))"

definition int_space :: "nat \<Rightarrow> bool" where
  "int_space c = (ascii_space c \<or> (127 \<le> c \<and> unicode_space c))"

fun short_int :: "(nat \<Rightarrow> nat option) \<Rightarrow> nat list \<Rightarrow> int option" where
  "short_int td [d] = int_digit td d"
| "short_int td [c, d] =
     (case (int_digit td c, int_digit td d) of
        (Some x, Some y) \<Rightarrow> Some (10 * x + y)
      | (None, Some y) \<Rightarrow>
          if c = 43 \<or> int_space c then Some y else if c = 45 then Some (- y) else None
      | (Some x, None) \<Rightarrow> if int_space d then Some x else None
      | (None, None) \<Rightarrow> None)"
| "short_int td _ = None"

text \<open>
  A table for the examples: the Arabic-Indic digits, code points 1632 to 1641, and no
  other decimal digit from 127 on.
\<close>

definition ex_todecimal :: "nat \<Rightarrow> nat option" where
  "ex_todecimal c = (if 1632 \<le> c \<and> c \<le> 1641 then Some (c - 1632) else None)"

section \<open>Scheduling_Classes.Trip\<close>

text \<open>
  \<open>datetime.date\<close> is a year, a month and a day; \<open>toordinal\<close> is the proleptic Gregorian
  day number of the standard library, so that \<open>(a - b).days\<close> is the difference of two
  ordinals.
\<close>

record date =
  year :: nat
  month :: nat
  day :: nat

definition is_leap :: "nat \<Rightarrow> bool" where
  "is_leap y = (y mod 4 = 0 \<and> (y mod 100 \<noteq> 0 \<or> y mod 400 = 0))"


definition days_before_year :: "nat \<Rightarrow> nat" where
  "days_before_year y = (let p = y - 1 in p * 365 + p div 4 - p div 100 + p div 400)"

definition days_before_month :: "nat \<Rightarrow> nat \<Rightarrow> nat" where
  "days_before_month y m =
     [0, 0, 31, 59, 90, 120, 151, 181, 212, 243, 273, 304, 334] ! m
     + (if m > 2 \<and> is_leap y then 1 else 0)"

definition toordinal :: "date \<Rightarrow> int" where
  "toordinal d = int (days_before_year (year d) + days_before_month (year d) (month d) + day d)"

text \<open>
  The dataclass \<open>Trip\<close>. \<open>StartTimeMins\<close> and \<open>EndTimeMins\<close> are class attributes with the
  value -1 until \<open>RecalcMinutes\<close> sets them on the object; they are not dataclass fields, so
  the constructor does not take them and \<open>==\<close> does not compare them. The texts of a
  trip are strings of 8-bit characters; \<open>RecalcMinutes\<close> hands their code points to
  \<open>ParseHxM\<close>, with the table of decimal digits that \<open>int\<close> uses.
\<close>

record Trip =
  Line :: int
  TripNo :: int
  StartStop :: string
  EndStop :: string
  StartTime :: string
  EndTime :: string
  Via :: "json list option"
  Day :: "date option"
  StartTimeMins :: int
  EndTimeMins :: int

definition RecalcMinutes :: "(nat \<Rightarrow> nat option) \<Rightarrow> Trip \<Rightarrow> date option \<Rightarrow> error + Trip" where
  "RecalcMinutes todecimal self firstDay =
     (case ParseHxM todecimal (codes (StartTime self)) of
        Inl err \<Rightarrow> Inl err
      | Inr s \<Rightarrow>
          (case ParseHxM todecimal (codes (EndTime self)) of
             Inl err \<Rightarrow> Inl err
           | Inr e \<Rightarrow>
               if \<not> (s \<ge> 0) then Inl AssertionError
               else if \<not> (e \<ge> 0) then Inl AssertionError
               else
                 let e' = (if e < s then e + 24 * 60 else e)
                 in (case (Day self, firstDay) of
                       (Some d, Some f) \<Rightarrow>
                         let daydiff = toordinal d - toordinal f
                         in Inr (self\<lparr>StartTimeMins := s + daydiff * 24 * 60,
                                      EndTimeMins := e' + daydiff * 24 * 60\<rparr>)
                     | _ \<Rightarrow> Inr (self\<lparr>StartTimeMins := s, EndTimeMins := e'\<rparr>))))"

definition day_offset :: "Trip \<Rightarrow> date option \<Rightarrow> int" where
  "day_offset t firstDay =
     (case (Day t, firstDay) of
        (Some d, Some f) \<Rightarrow> (toordinal d - toordinal f) * 24 * 60
      | _ \<Rightarrow> 0)"

section \<open>Scheduling_Precalculation: distances and the feasibility graph\<close>

text \<open>
  The distance matrix is a two-dimensional numpy array of 64-bit signed integers
  (\<open>np.array(...).astype(int)\<close>), here the list of its rows; an entry of a row is read as
  the 64-bit value \<open>int64\<close> of it. Arithmetic between a Python integer and an entry is
  the arithmetic of numpy scalars: the Python integer is brought to 64 bits, which raises
  OverflowError when it does not fit (numpy 2), and the sum or difference of the two
  64-bit values wraps around. A comparison of the result with a Python integer is exact.
\<close>

definition int64 :: "int \<Rightarrow> int" where
  "int64 x = (x + 2 ^ 63) mod 2 ^ 64 - 2 ^ 63"

definition fits_int64 :: "int \<Rightarrow> bool" where
  "fits_int64 x = (- (2 ^ 63) \<le> x \<and> x < 2 ^ 63)"

definition int64_add :: "int \<Rightarrow> int \<Rightarrow> error + int" where
  "int64_add x d = (if fits_int64 x then Inr (int64 (x + d)) else Inl OverflowError)"

definition int64_sub :: "int \<Rightarrow> int \<Rightarrow> error + int" where
  "int64_sub x d = (if fits_int64 x then Inr (int64 (x - d)) else Inl OverflowError)"

text \<open>
  \<open>distances[i, j]\<close> takes negative indices from the end on both axes and raises
  IndexError outside the array. The entries are minutes.
\<close>

definition np_index2 :: "int list list \<Rightarrow> int \<Rightarrow> int \<Rightarrow> error + int" where
  "np_index2 m i j =
     (case py_index m i of
        Inl e \<Rightarrow> Inl e
      | Inr row \<Rightarrow> (case py_index row j of Inl e \<Rightarrow> Inl e | Inr d \<Rightarrow> Inr (int64 d)))"

text \<open>
  \<open>waitingTime = trips[trip2].StartTimeMins - trips[trip1].EndTimeMins - distances[fromId, toId]\<close>
  followed by the test \<open>waitingTime > 0\<close>, with \<open>x\<close> the difference of the two minutes, a
  Python integer. One of the two indices may be \<open>None\<close>, as \<open>stopsMap.get\<close> returns for an
  unknown stop. numpy reads \<open>None\<close> as a new axis, so the other index selects a row and
  the result is an array, not a number: it has no truth value when the row has more than
  one entry (ValueError). In the other cases the source goes on to its own check and
  raises ValueError there.
\<close>

definition waitingTime :: "int list list \<Rightarrow> int option \<Rightarrow> int option \<Rightarrow> int \<Rightarrow> error + int" where
  "waitingTime m fromId toId x =
     (case (fromId, toId) of
        (Some i, Some j) \<Rightarrow>
          (case np_index2 m i j of Inl e \<Rightarrow> Inl e | Inr d \<Rightarrow> int64_sub x d)
      | (Some i, None) \<Rightarrow>
          (case py_index m i of
             Inl e \<Rightarrow> Inl e
           | Inr row \<Rightarrow>
               if \<not> fits_int64 x then Inl OverflowError
               else if length row > 1 then Inl (ValueError ''truth value of an array is ambiguous'')
               else Inl (ValueError ''Stop not found''))
      | (None, Some j) \<Rightarrow>
          (case py_index m j of
             Inl e \<Rightarrow> Inl e
           | Inr row \<Rightarrow>
               if \<not> fits_int64 x then Inl OverflowError
               else if length row > 1 then Inl (ValueError ''truth value of an array is ambiguous'')
               else Inl (ValueError ''Stop not found''))
      | (None, None) \<Rightarrow>
          if \<not> fits_int64 x then Inl OverflowError
          else if sum_list (map length m) > 1
          then Inl (ValueError ''truth value of an array is ambiguous'')
          else Inl (ValueError ''Stop not found''))"

text \<open>
  \<open>GetDistFromEdge\<close>. The cost starts as the integer 0 and receives integers, except for
  the waiting penalty \<open>0.001 * waitingTime\<close>, a float. Costs are rational numbers here:
  the float product is taken exactly, its rounding is not modelled. Note that only
  \<open>trip1 == -1\<close> and \<open>trip2 == -2\<close> stand for the depot; any other negative index is an
  ordinary Python list index and reads \<open>trips\<close> from the end.
\<close>

definition edge_from :: "int \<Rightarrow> Trip list \<Rightarrow> (string \<times> int) list \<Rightarrow> int option \<Rightarrow> int
    \<Rightarrow> error + (int option \<times> int)" where
  "edge_from trip1 trips stopsMap depotIdx depotVal =
     (if trip1 = - 1 then
        (case depotIdx of
           None \<Rightarrow> Inl (ValueError ''Depot not specified'')
         | Some dp \<Rightarrow> Inr (Some dp, depotVal))
      else
        (case py_index trips trip1 of
           Inl e \<Rightarrow> Inl e
         | Inr tripn1 \<Rightarrow> Inr (dict_get stopsMap (EndStop tripn1), 0)))"

definition edge_to :: "int \<Rightarrow> Trip list \<Rightarrow> (string \<times> int) list \<Rightarrow> int option \<Rightarrow> int
    \<Rightarrow> error + (int option \<times> int)" where
  "edge_to trip2 trips stopsMap depotIdx depotVal =
     (if trip2 = - 2 then
        (case depotIdx of
           None \<Rightarrow> Inl (ValueError ''Depot not specified'')
         | Some dp \<Rightarrow> Inr (Some dp, depotVal))
      else
        (case py_index trips trip2 of
           Inl e \<Rightarrow> Inl e
         | Inr tripn2 \<Rightarrow> Inr (dict_get stopsMap (StartStop tripn2), 0)))"

definition edge_penalty :: "int \<Rightarrow> int \<Rightarrow> Trip list \<Rightarrow> int list list \<Rightarrow> int option \<Rightarrow> int option
    \<Rightarrow> int \<Rightarrow> error + rat" where
  "edge_penalty trip1 trip2 trips distances fromId toId linePenalty =
     (if trip1 \<ge> 0 \<and> trip2 \<ge> 0 then
        (case py_index trips trip1 of
           Inl e \<Rightarrow> Inl e
         | Inr t1 \<Rightarrow>
             (case py_index trips trip2 of
                Inl e \<Rightarrow> Inl e
              | Inr t2 \<Rightarrow>
                  (case waitingTime distances fromId toId (StartTimeMins t2 - EndTimeMins t1) of
                     Inl e \<Rightarrow> Inl e
                   | Inr w \<Rightarrow>
                       Inr (of_int (if Line t1 \<noteq> Line t2 then linePenalty else 0)
                            + (if w > 0 then of_int w / 1000 else 0)))))
      else Inr 0)"

definition GetDistFromEdge :: "int \<times> int \<Rightarrow> Trip list \<Rightarrow> (string \<times> int) list \<Rightarrow> int list list
    \<Rightarrow> int option \<Rightarrow> int \<Rightarrow> int \<Rightarrow> error + rat" where
  "GetDistFromEdge edge trips stopsMap distances depotIdx depotVal linePenalty =
     (case edge of (trip1, trip2) \<Rightarrow>
        (case edge_from trip1 trips stopsMap depotIdx depotVal of
           Inl e \<Rightarrow> Inl e
         | Inr (fromId, out_cost) \<Rightarrow>
             (case edge_to trip2 trips stopsMap depotIdx depotVal of
                Inl e \<Rightarrow> Inl e
              | Inr (toId, in_cost) \<Rightarrow>
                  (case edge_penalty trip1 trip2 trips distances fromId toId linePenalty of
                     Inl e \<Rightarrow> Inl e
                   | Inr penalty \<Rightarrow>
                       (case (fromId, toId) of
                          (Some i, Some j) \<Rightarrow>
                            (case np_index2 distances i j of
                               Inl e \<Rightarrow> Inl e
                             | Inr d \<Rightarrow>
                                 let distance = of_int out_cost + of_int in_cost + penalty + of_int d
                                 in if distance < 0 then
                                      (case py_index trips trip1 of
                                         Inl e \<Rightarrow> Inl e
                                       | Inr _ \<Rightarrow>
                                           (case py_index trips trip2 of
                                              Inl e \<Rightarrow> Inl e
                                            | Inr _ \<Rightarrow> Inl (ValueError ''Negative distance'')))
                                    else Inr distance)
                        | _ \<Rightarrow> Inl (ValueError ''Stop not found''))))))"

text \<open>
  \<open>CreateDeadheadMap\<close>: the dictionary from each edge to its cost, with the stop index
  built from the list of stop names. The first edge whose cost raises ends the call.
\<close>

definition enumerate_stops :: "string list \<Rightarrow> (string \<times> int) list" where
  "enumerate_stops stops =
     foldl (\<lambda>d (i, stop). dict_set d stop (int i)) [] (List.enumerate 0 stops)"

fun deadhead_entries :: "(int \<times> int) list \<Rightarrow> ((int \<times> int) \<Rightarrow> error + rat)
    \<Rightarrow> ((int \<times> int) \<times> rat) list \<Rightarrow> error + ((int \<times> int) \<times> rat) list" where
  "deadhead_entries [] cost dh = Inr dh"
| "deadhead_entries (e # es) cost dh =
     (case cost e of
        Inl err \<Rightarrow> Inl err
      | Inr c \<Rightarrow> deadhead_entries es cost (dict_set dh e c))"

definition CreateDeadheadMap :: "(int \<times> int) list \<Rightarrow> Trip list \<Rightarrow> string list \<Rightarrow> int list list
    \<Rightarrow> int option \<Rightarrow> int \<Rightarrow> int \<Rightarrow> error + ((int \<times> int) \<times> rat) list" where
  "CreateDeadheadMap edges trips stops distances depotIdx depotVal linePenalty =
     deadhead_entries edges
       (\<lambda>e. GetDistFromEdge e trips (enumerate_stops stops) distances depotIdx depotVal linePenalty)
       []"

text \<open>
  \<open>CreateFeasibilityGraph\<close>: every ordered pair of positions of the trip list is tested,
  the pair of a trip with itself too; \<open>stopsMap[...]\<close> raises KeyError on an unknown stop.
  The chained comparison is evaluated for every pair, so one failing lookup fails the call.
\<close>

definition stop_distance :: "(string \<times> int) list \<Rightarrow> int list list \<Rightarrow> string \<Rightarrow> string
    \<Rightarrow> error + int" where
  "stop_distance stopsMap distances s1 s2 =
     (case dict_index stopsMap s1 of
        Inl e \<Rightarrow> Inl e
      | Inr a \<Rightarrow>
          (case dict_index stopsMap s2 of
             Inl e \<Rightarrow> Inl e
           | Inr b \<Rightarrow> np_index2 distances a b))"

definition can_follow :: "(string \<times> int) list \<Rightarrow> int list list \<Rightarrow> int \<Rightarrow> Trip \<Rightarrow> Trip
    \<Rightarrow> error + bool" where
  "can_follow stopsMap distances maxWaitHours t1 t2 =
     (case stop_distance stopsMap distances (EndStop t1) (StartStop t2) of
        Inl e \<Rightarrow> Inl e
      | Inr d \<Rightarrow>
          (case int64_add (EndTimeMins t1) d of
             Inl e \<Rightarrow> Inl e
           | Inr arrival \<Rightarrow>
               Inr (arrival \<le> StartTimeMins t2
                    \<and> StartTimeMins t2 \<le> EndTimeMins t1 + maxWaitHours * 60)))"

fun filter_err :: "('a \<Rightarrow> error + bool) \<Rightarrow> 'a list \<Rightarrow> error + 'a list" where
  "filter_err p [] = Inr []"
| "filter_err p (x # xs) =
     (case p x of
        Inl e \<Rightarrow> Inl e
      | Inr keep \<Rightarrow>
          (case filter_err p xs of
             Inl e \<Rightarrow> Inl e
           | Inr ys \<Rightarrow> Inr (if keep then x # ys else ys)))"

definition CreateFeasibilityGraph :: "Trip list \<Rightarrow> (string \<times> int) list \<Rightarrow> int list list \<Rightarrow> int
    \<Rightarrow> error + (int \<times> int) list" where
  "CreateFeasibilityGraph trips stopsMap distances maxWaitHours =
     (case filter_err
             (\<lambda>(i, j). can_follow stopsMap distances maxWaitHours (trips ! i) (trips ! j))
             (List.product [0..<length trips] [0..<length trips]) of
        Inl e \<Rightarrow> Inl e
      | Inr ps \<Rightarrow> Inr (map (\<lambda>(i, j). (int i, int j)) ps))"

text \<open>
  The pairs the specification asks for, in its own words: the ordered pairs \<open>(i, j)\<close> of
  two different positions with
  \<open>end(i) + distance(end_stop(i), start_stop(j)) \<le> start(j) \<le> end(i) + maxWaitHours * 60\<close>,
  where the distance is the entry of the matrix at the indices of the two stops.
\<close>

definition spec_distance :: "(string \<times> int) list \<Rightarrow> int list list \<Rightarrow> string \<Rightarrow> string \<Rightarrow> int option" where
  "spec_distance stopsMap distances s1 s2 =
     (case (map_of stopsMap s1, map_of stopsMap s2) of
        (Some a, Some b) \<Rightarrow>
          if 0 \<le> a \<and> a < int (length distances) \<and> 0 \<le> b \<and> b < int (length (distances ! nat a))
          then Some (distances ! nat a ! nat b) else None
      | _ \<Rightarrow> None)"

definition spec_feasible_pairs :: "Trip list \<Rightarrow> (string \<times> int) list \<Rightarrow> int list list \<Rightarrow> int
    \<Rightarrow> (int \<times> int) set" where
  "spec_feasible_pairs trips stopsMap distances maxWaitHours =
     {(int i, int j) | i j. i < length trips \<and> j < length trips \<and> i \<noteq> j
        \<and> (\<exists>d. spec_distance stopsMap distances (EndStop (trips ! i)) (StartStop (trips ! j)) = Some d
              \<and> EndTimeMins (trips ! i) + d \<le> StartTimeMins (trips ! j)
              \<and> StartTimeMins (trips ! j) \<le> EndTimeMins (trips ! i) + maxWaitHours * 60)}"

text \<open>
  Example data: a trip between two stops with its start and end minute; the other fields
  play no part in the distances.
\<close>

definition ex_trip :: "string \<Rightarrow> string \<Rightarrow> int \<Rightarrow> int \<Rightarrow> Trip" where
  "ex_trip s e start end =
     \<lparr>Line = 1, TripNo = 1, StartStop = s, EndStop = e, StartTime = '''', EndTime = '''',
      Via = None, Day = None, StartTimeMins = start, EndTimeMins = end\<rparr>"

section \<open>Scheduling_Main: depot evaluation, duty length and swap cost\<close>

text \<open>
  \<open>sum(f(x) for x in xs)\<close> over values that may raise: the first element that raises ends
  the sum.
\<close>

fun sum_err :: "('a \<Rightarrow> error + rat) \<Rightarrow> 'a list \<Rightarrow> error + rat" where
  "sum_err f [] = Inr 0"
| "sum_err f (x # xs) =
     (case f x of
        Inl e \<Rightarrow> Inl e
      | Inr v \<Rightarrow> (case sum_err f xs of Inl e \<Rightarrow> Inl e | Inr s \<Rightarrow> Inr (v + s)))"

text \<open>
  \<open>evalDepot\<close> inside \<open>OptimizeTripsFindOptimalDepot\<close>, with the duty list \<open>buses\<close> that
  the matching produced as an argument. The source passes the edges \<open>(b[0], -1)\<close> and
  \<open>(b[-1], -2)\<close>, with the default \<open>depotVal = 0\<close> and \<open>linePenalty = 0\<close>.
\<close>

definition evalDepot :: "int list list \<Rightarrow> Trip list \<Rightarrow> (string \<times> int) list \<Rightarrow> int list list
    \<Rightarrow> int \<Rightarrow> error + rat" where
  "evalDepot buses trips stops dists depotId =
     sum_err (\<lambda>b.
        case py_index b 0 of
          Inl e \<Rightarrow> Inl e
        | Inr first \<Rightarrow>
            (case GetDistFromEdge (first, - 1) trips stops dists (Some depotId) 0 0 of
               Inl e \<Rightarrow> Inl e
             | Inr out \<Rightarrow>
                 (case py_index b (- 1) of
                    Inl e \<Rightarrow> Inl e
                  | Inr final \<Rightarrow>
                      (case GetDistFromEdge (final, - 2) trips stops dists (Some depotId) 0 0 of
                         Inl e \<Rightarrow> Inl e
                       | Inr back \<Rightarrow> Inr (out + back))))) buses"

text \<open>
  \<open>depotIdxToValue = {depotId: evalDepot(depotId) for depotId in stops.values()}\<close> and
  \<open>min(depotIdxToValue, key=depotIdxToValue.get)\<close>: the first key, in insertion order, whose
  value is the least; \<open>min\<close> of an empty dictionary raises ValueError.
\<close>

fun depot_values :: "(int \<Rightarrow> error + rat) \<Rightarrow> int list \<Rightarrow> (int \<times> rat) list
    \<Rightarrow> error + (int \<times> rat) list" where
  "depot_values f [] d = Inr d"
| "depot_values f (k # ks) d =
     (case f k of Inl e \<Rightarrow> Inl e | Inr v \<Rightarrow> depot_values f ks (dict_set d k v))"

fun min_by_value :: "('a \<times> rat) list \<Rightarrow> 'a option" where
  "min_by_value [] = None"
| "min_by_value (kv # kvs) =
     Some (fst (foldl (\<lambda>best kv'. if snd kv' < snd best then kv' else best) kv kvs))"

definition bestDepotHeur :: "int list list \<Rightarrow> Trip list \<Rightarrow> (string \<times> int) list \<Rightarrow> int list list
    \<Rightarrow> error + int" where
  "bestDepotHeur buses trips stops dists =
     (case depot_values (evalDepot buses trips stops dists) (map snd stops) [] of
        Inl e \<Rightarrow> Inl e
      | Inr depotIdxToValue \<Rightarrow>
          (case min_by_value depotIdxToValue of
             None \<Rightarrow> Inl (ValueError ''min() arg is an empty sequence'')
           | Some depotId \<Rightarrow> Inr depotId))"

text \<open>
  The sum the specification gives for a candidate depot \<open>d\<close>: over all duties,
  \<open>distance(d, start stop of the first trip) + distance(end stop of the last trip, d)\<close>.
\<close>

definition spec_depot_sum :: "int list list \<Rightarrow> Trip list \<Rightarrow> (string \<times> int) list \<Rightarrow> int list list
    \<Rightarrow> int \<Rightarrow> error + rat" where
  "spec_depot_sum buses trips stops dists d =
     sum_err (\<lambda>b.
        case py_index b 0 of
          Inl e \<Rightarrow> Inl e
        | Inr first \<Rightarrow>
            (case py_index b (- 1) of
               Inl e \<Rightarrow> Inl e
             | Inr final \<Rightarrow>
                 (case (dict_get stops (StartStop (trips ! nat first)),
                        dict_get stops (EndStop (trips ! nat final))) of
                    (Some s, Some e) \<Rightarrow>
                      (case (np_index2 dists d s, np_index2 dists e d) of
                         (Inr out, Inr back) \<Rightarrow> Inr (of_int out + of_int back)
                       | _ \<Rightarrow> Inl IndexError)
                  | _ \<Rightarrow> Inl KeyError))) buses"

text \<open>
  \<open>EvaluateLength\<close>: for every duty the cost of every edge \<open>(bus[i - 1], bus[i])\<close>, where
  \<open>i = 0\<close> gives the return edge from the last trip to the first.
\<close>

definition EvaluateLength :: "int list list \<Rightarrow> Trip list \<Rightarrow> int list list \<Rightarrow> (string \<times> int) list
    \<Rightarrow> error + rat" where
  "EvaluateLength buses trips dists stopsMap =
     sum_err (\<lambda>(bus, i).
        case py_index bus (int i - 1) of
          Inl e \<Rightarrow> Inl e
        | Inr u \<Rightarrow>
            (case py_index bus (int i) of
               Inl e \<Rightarrow> Inl e
             | Inr v \<Rightarrow> GetDistFromEdge (u, v) trips stopsMap dists None 0 0))
       (concat (map (\<lambda>bus. map (\<lambda>i. (bus, i)) [0..<length bus]) buses))"

text \<open>
  \<open>EvaluateSwapDiffShort\<close>. \<open>edgeWeights.get(key, 0)\<close> is 0 for a key that is not cached, in
  particular for a key with \<open>None\<close> in it. The four special cases are consecutive \<open>if\<close>
  statements, so a later one overrides an earlier one.
\<close>

definition weight_or_0 :: "((int \<times> int) \<times> rat) list \<Rightarrow> int option \<Rightarrow> int option \<Rightarrow> rat" where
  "weight_or_0 edgeWeights a b =
     (case (a, b) of
        (Some u, Some v) \<Rightarrow> (case dict_get edgeWeights (u, v) of Some w \<Rightarrow> w | None \<Rightarrow> 0)
      | _ \<Rightarrow> 0)"

definition EvaluateSwapDiffShort :: "int list \<Rightarrow> int list \<Rightarrow> int option \<Rightarrow> int option \<Rightarrow> int option
    \<Rightarrow> int option \<Rightarrow> ((int \<times> int) \<times> rat) list \<Rightarrow> error + rat" where
  "EvaluateSwapDiffShort bus1 bus2 a1 a2 b1 b2 edgeWeights =
     (case (bus1, bus2) of
        (f1 # r1, f2 # r2) \<Rightarrow>
          let l1 = Some (last bus1); l2 = Some (last bus2);
              h1 = Some f1; h2 = Some f2;
              w = weight_or_0 edgeWeights;
              sumOld = w a1 a2 + w l1 h1 + w b1 b2 + w l2 h2;
              newChain1 = w a1 b2;
              newChain2 = w b1 a2;
              newReturn1 = (if b2 = None then w a1 h1
                            else if a1 = None then w l2 b2
                            else w l2 h1);
              newReturn2 = (if b1 = None then w l1 a2
                            else if a2 = None then w b1 h2
                            else w l1 h2);
              sumNew = newChain1 + newReturn1 + newChain2 + newReturn2
          in Inr (sumNew - sumOld)
      | _ \<Rightarrow> Inl IndexError)"

text \<open>
  Example data: three stops A, B, C with distances A-B 10, A-C 10, B-C 5, and three trips,
  A to B and A to C from minute 480 to 510 and B to B from 520 to 550.
\<close>

definition ex_depot_trips :: "Trip list" where
  "ex_depot_trips =
     [ex_trip ''A'' ''B'' 480 510, ex_trip ''A'' ''C'' 480 510, ex_trip ''B'' ''B'' 520 550]"

definition ex_depot_stops :: "(string \<times> int) list" where
  "ex_depot_stops = [(''A'', 0), (''B'', 1), (''C'', 2)]"

definition ex_depot_dists :: "int list list" where
  "ex_depot_dists = [[0, 10, 10], [10, 0, 5], [10, 5, 0]]"






section \<open>Scheduling_Main.ConvertEdgesToBuses\<close>

text \<open>
  The inner loop \<open>while v := be.get(v)\<close> ends when \<open>v\<close> has no successor in \<open>be\<close>, and also
  when the successor is trip 0, since the integer 0 is false in Python. It has no other
  exit than the \<open>break\<close>, so on a cycle of edges it does not end: the loop is a partial
  function, \<open>None\<close> when it runs forever. The set \<open>used\<close> is kept as a list.
\<close>

partial_function (option) follow_chain ::
    "(int \<times> int) list \<Rightarrow> int \<Rightarrow> int \<Rightarrow> int list \<Rightarrow> int list \<Rightarrow> (int list \<times> int list) option" where
  "follow_chain be tripsCount v used current =
     (case dict_get be v of
        None \<Rightarrow> Some (used, current)
      | Some v' \<Rightarrow>
          if v' = 0 then Some (used, current)
          else if v' \<ge> tripsCount then Some (v' # used, current)
          else follow_chain be tripsCount v' (v' # used) (current @ [v']))"

declare follow_chain.simps [code]

text \<open>The outer loop \<open>for u, v in be.items()\<close>.\<close>

fun chain_loop :: "(int \<times> int) list \<Rightarrow> int \<Rightarrow> (int \<times> int) list \<Rightarrow> int list \<Rightarrow> int list list
    \<Rightarrow> (int list \<times> int list list) option" where
  "chain_loop be tripsCount [] used chains' = Some (used, chains')"
| "chain_loop be tripsCount ((u, v) # items) used chains' =
     (if u \<in> set used \<or> v \<in> set used then chain_loop be tripsCount items used chains'
      else
        (case follow_chain be tripsCount v (v # u # used) [u, v] of
           None \<Rightarrow> None
         | Some (used', current) \<Rightarrow> chain_loop be tripsCount items used' (chains' @ [current])))"

text \<open>
  The sort key \<open>(-len(bs), bs[0])\<close> of the final \<open>buses.sort\<close>; tuples compare
  lexicographically and the sort is stable. No duty is empty here.
\<close>

definition duty_key :: "int list \<Rightarrow> int \<times> int" where
  "duty_key bs = (- int (length bs), hd bs)"

definition ConvertEdgesToBuses :: "nat \<Rightarrow> (int \<times> int) list \<Rightarrow> int list list option" where
  "ConvertEdgesToBuses tripsCount edges =
     (let be = foldl (\<lambda>d (u, v). dict_set d u v) [] (sort edges)
      in case chain_loop be (int tripsCount) be [] [] of
           None \<Rightarrow> None
         | Some (used, chains') \<Rightarrow>
             let solo = filter (\<lambda>i. i \<notin> set used) (map int [0..<tripsCount]);
                 buses = chains' @ map (\<lambda>i. [i]) solo
             in Some (sort_key duty_key buses))"

text \<open>
  The edges of a matching: every trip index is the source of at most one edge and the
  target of at most one edge, and all indices are trip indices.
\<close>

definition matching_edges :: "nat \<Rightarrow> (int \<times> int) list \<Rightarrow> bool" where
  "matching_edges tripsCount edges =
     (distinct (map fst edges) \<and> distinct (map snd edges)
      \<and> list_all (\<lambda>(u, v). 0 \<le> u \<and> u < int tripsCount \<and> 0 \<le> v \<and> v < int tripsCount) edges)"




section \<open>Scheduling_Main.OptimizeTripsCircularApprox: the iteration loop\<close>

text \<open>
  A candidate of the population is the tuple \<open>(swap, buses, length, possibleSwaps)\<close>. The set
  \<open>possibleSwaps\<close> is the list of its elements, in the order in which Python enumerates the
  set. A swap is \<open>(busIndex1, tripIndex1, busIndex2, tripIndex2)\<close>; a trip index of -1 cuts
  before the first trip.
\<close>

type_synonym swap = "int \<times> int \<times> int \<times> int"

record solution =
  sol_swap :: "swap option"
  sol_buses :: "int list list"
  sol_length :: rat
  sol_swaps :: "swap list"

fun fold_err :: "('a \<Rightarrow> 's \<Rightarrow> error + 's) \<Rightarrow> 'a list \<Rightarrow> 's \<Rightarrow> error + 's" where
  "fold_err f [] s = Inr s"
| "fold_err f (x # xs) s = (case f x s of Inl e \<Rightarrow> Inl e | Inr s' \<Rightarrow> fold_err f xs s')"

fun map_err :: "('a \<Rightarrow> error + 'b) \<Rightarrow> 'a list \<Rightarrow> error + 'b list" where
  "map_err f [] = Inr []"
| "map_err f (x # xs) =
     (case f x of
        Inl e \<Rightarrow> Inl e
      | Inr y \<Rightarrow> (case map_err f xs of Inl e \<Rightarrow> Inl e | Inr ys \<Rightarrow> Inr (y # ys)))"

definition set_add :: "'a list \<Rightarrow> 'a \<Rightarrow> 'a list" where
  "set_add xs x = (if x \<in> set xs then xs else xs @ [x])"

text \<open>
  \<open>a1 = bus[i] if i >= 0 else None\<close> and \<open>a2 = bus[i + 1] if i + 1 < len(bus) else None\<close>.
\<close>

definition trip_before :: "int list \<Rightarrow> int \<Rightarrow> error + int option" where
  "trip_before bus i =
     (if i \<ge> 0 then (case py_index bus i of Inl e \<Rightarrow> Inl e | Inr t \<Rightarrow> Inr (Some t))
      else Inr None)"

definition trip_after :: "int list \<Rightarrow> int \<Rightarrow> error + int option" where
  "trip_after bus i =
     (if i + 1 < int (length bus)
      then (case py_index bus (i + 1) of Inl e \<Rightarrow> Inl e | Inr t \<Rightarrow> Inr (Some t))
      else Inr None)"

text \<open>The test before \<open>possibleSwaps.add\<close>, and the condition of the two assertions.\<close>

definition in_edges :: "(int \<times> int) list \<Rightarrow> int option \<Rightarrow> int option \<Rightarrow> bool" where
  "in_edges sedges a b =
     (case (a, b) of (Some x, Some y) \<Rightarrow> (x, y) \<in> set sedges | _ \<Rightarrow> True)"

definition swap_allowed :: "(int \<times> int) list \<Rightarrow> int option \<Rightarrow> int option \<Rightarrow> int option
    \<Rightarrow> int option \<Rightarrow> bool" where
  "swap_allowed sedges a1 a2 b1 b2 =
     (\<not> (length (filter (\<lambda>item. item = None) [a1, a2, b1, b2]) > 1
         \<or> \<not> in_edges sedges b1 a2
         \<or> \<not> in_edges sedges a1 b2))"

text \<open>\<open>range(-1, len(bus))\<close>.\<close>

definition cut_points :: "int list \<Rightarrow> int list" where
  "cut_points bus = map (\<lambda>k. int k - 1) [0..<Suc (length bus)]"

text \<open>
  The re-creation of the swappable edges of one changed duty \<open>(bus1I, bus1)\<close> against every
  duty that is not one of the two changed ones (\<open>ours\<close>).
\<close>

definition swaps_with_bus :: "(int \<times> int) list \<Rightarrow> int \<Rightarrow> int \<Rightarrow> int option \<Rightarrow> int option
    \<Rightarrow> int \<Rightarrow> int list \<Rightarrow> swap list \<Rightarrow> error + swap list" where
  "swaps_with_bus sedges bus1I tripIndex1 a1 a2 bus2I bus2 acc =
     fold_err (\<lambda>tripIndex2 acc.
        case trip_before bus2 tripIndex2 of
          Inl e \<Rightarrow> Inl e
        | Inr b1 \<Rightarrow>
            (case trip_after bus2 tripIndex2 of
               Inl e \<Rightarrow> Inl e
             | Inr b2 \<Rightarrow>
                 if \<not> in_edges sedges b1 b2 then Inl AssertionError
                 else if \<not> swap_allowed sedges a1 a2 b1 b2 then Inr acc
                 else Inr (set_add acc (bus1I, tripIndex1, bus2I, tripIndex2))))
       (cut_points bus2) acc"

definition swaps_from_cut :: "(int \<times> int) list \<Rightarrow> int list \<Rightarrow> int list list \<Rightarrow> int \<Rightarrow> int list
    \<Rightarrow> int \<Rightarrow> swap list \<Rightarrow> error + swap list" where
  "swaps_from_cut sedges ours currentBuses bus1I bus1 tripIndex1 acc =
     (case trip_before bus1 tripIndex1 of
        Inl e \<Rightarrow> Inl e
      | Inr a1 \<Rightarrow>
          (case trip_after bus1 tripIndex1 of
             Inl e \<Rightarrow> Inl e
           | Inr a2 \<Rightarrow>
               if \<not> in_edges sedges a1 a2 then Inl AssertionError
               else fold_err (\<lambda>(bus2I, bus2) acc.
                      if int bus2I \<in> set ours then Inr acc
                      else swaps_with_bus sedges bus1I tripIndex1 a1 a2 (int bus2I) bus2 acc)
                    (List.enumerate 0 currentBuses) acc))"

definition swaps_for_bus :: "(int \<times> int) list \<Rightarrow> int list \<Rightarrow> int list list \<Rightarrow> int \<times> int list
    \<Rightarrow> swap list \<Rightarrow> error + swap list" where
  "swaps_for_bus sedges ours currentBuses ourBus acc =
     (case ourBus of (bus1I, bus1) \<Rightarrow>
        fold_err (swaps_from_cut sedges ours currentBuses bus1I bus1) (cut_points bus1) acc)"

text \<open>
  Slices \<open>xs[:k]\<close> and \<open>xs[k:]\<close> (a negative bound counts from the end) and the assignment
  \<open>xs[i] = v\<close>.
\<close>

definition slice_to :: "'a list \<Rightarrow> int \<Rightarrow> 'a list" where
  "slice_to xs k = (if k \<ge> 0 then take (nat k) xs else take (nat (int (length xs) + k)) xs)"

definition slice_from :: "'a list \<Rightarrow> int \<Rightarrow> 'a list" where
  "slice_from xs k = (if k \<ge> 0 then drop (nat k) xs else drop (nat (int (length xs) + k)) xs)"

definition py_assign :: "'a list \<Rightarrow> int \<Rightarrow> 'a \<Rightarrow> error + 'a list" where
  "py_assign xs i v =
     (if 0 \<le> i \<and> i < int (length xs) then Inr (xs[nat i := v])
      else if i < 0 \<and> - int (length xs) \<le> i then Inr (xs[nat (int (length xs) + i) := v])
      else Inl IndexError)"

text \<open>
  The second half of a round, for one kept candidate: the candidate without a swap is
  copied; otherwise the two duties exchange their tails, the swappable edges of both are
  removed and created again. The length of the candidate is carried over as it is.
\<close>

definition apply_swap :: "(int \<times> int) list \<Rightarrow> solution \<Rightarrow> error + solution" where
  "apply_swap sedges s =
     (case sol_swap s of
        None \<Rightarrow> Inr s
      | Some (bus1I, trip1I, bus2I, trip2I) \<Rightarrow>
          (case py_index (sol_buses s) bus1I of
             Inl e \<Rightarrow> Inl e
           | Inr bus1 \<Rightarrow>
               (case py_index (sol_buses s) bus2I of
                  Inl e \<Rightarrow> Inl e
                | Inr bus2 \<Rightarrow>
                    let busA = slice_to bus1 (trip1I + 1) @ slice_from bus2 (trip2I + 1);
                        busB = slice_to bus2 (trip2I + 1) @ slice_from bus1 (trip1I + 1)
                    in if length busA + length busB \<noteq> length bus1 + length bus2
                       then Inl AssertionError
                       else
                         (case py_assign (sol_buses s) bus1I busA of
                            Inl e \<Rightarrow> Inl e
                          | Inr buses1 \<Rightarrow>
                              (case py_assign buses1 bus2I busB of
                                 Inl e \<Rightarrow> Inl e
                               | Inr currentBuses \<Rightarrow>
                                   let kept_swaps =
                                         filter (\<lambda>(e0, e1, e2, e3).
                                                   \<not> (e0 = bus1I \<or> e0 = bus2I \<or> e2 = bus1I \<or> e2 = bus2I))
                                                (sol_swaps s)
                                   in (case fold_err (swaps_for_bus sedges [bus1I, bus2I] currentBuses)
                                              [(bus1I, busA), (bus2I, busB)] kept_swaps of
                                         Inl e \<Rightarrow> Inl e
                                       | Inr swaps \<Rightarrow>
                                           Inr \<lparr>sol_swap = None, sol_buses = currentBuses,
                                                sol_length = sol_length s, sol_swaps = swaps\<rparr>))))))"

text \<open>
  The random choices of one round are an argument: for every candidate the sorted sample
  of positions in its \<open>possibleSwaps\<close>, the sample of positions in \<open>newSolutions[1:]\<close>, and
  the random numbers that break ties in the last sort. An argument that is no such sample
  is answered by the error \<open>Exception ''no sample''\<close>. The size of the second sample,
  \<open>int(lns / n)\<close> with \<open>n = max(sqrt(lns / (kept - 1)), 1)\<close>, is a float computation and is
  left open: every size is admitted.
\<close>

record round_oracle =
  swap_samples :: "nat list list"
  kept_sample :: "nat list"
  tie_keys :: "rat list"

definition valid_sample :: "nat \<Rightarrow> nat list \<Rightarrow> bool" where
  "valid_sample n xs = (distinct xs \<and> list_all (\<lambda>i. i < n) xs)"

text \<open>The proposals of one candidate: \<open>newValue = length + swd\<close> for each sampled swap.\<close>

definition propose_swap :: "((int \<times> int) \<times> rat) list \<Rightarrow> solution \<Rightarrow> swap \<Rightarrow> error + solution" where
  "propose_swap edgeWeights s sw =
     (case sw of (bus1I, trip1I, bus2I, trip2I) \<Rightarrow>
        (case py_index (sol_buses s) bus1I of
           Inl e \<Rightarrow> Inl e
         | Inr bus1 \<Rightarrow>
             (case py_index (sol_buses s) bus2I of
                Inl e \<Rightarrow> Inl e
              | Inr bus2 \<Rightarrow>
                  (case trip_before bus1 trip1I of
                     Inl e \<Rightarrow> Inl e
                   | Inr a1 \<Rightarrow>
                       (case trip_after bus1 trip1I of
                          Inl e \<Rightarrow> Inl e
                        | Inr a2 \<Rightarrow>
                            (case trip_before bus2 trip2I of
                               Inl e \<Rightarrow> Inl e
                             | Inr b1 \<Rightarrow>
                                 (case trip_after bus2 trip2I of
                                    Inl e \<Rightarrow> Inl e
                                  | Inr b2 \<Rightarrow>
                                      (case EvaluateSwapDiffShort bus1 bus2 a1 a2 b1 b2 edgeWeights of
                                         Inl e \<Rightarrow> Inl e
                                       | Inr swd \<Rightarrow>
                                           Inr (s\<lparr>sol_swap := Some sw,
                                                  sol_length := sol_length s + swd\<rparr>)))))))))"

definition proposals_of :: "int \<Rightarrow> ((int \<times> int) \<times> rat) list \<Rightarrow> solution \<times> nat list
    \<Rightarrow> error + solution list" where
  "proposals_of multiplications edgeWeights sp =
     (case sp of (s, multiSol) \<Rightarrow>
        let n = length (sol_swaps s); k = min multiplications (int n)
        in if k < 0 then Inl (ValueError ''Sample larger than population or is negative'')
           else if \<not> (valid_sample n multiSol \<and> sorted multiSol \<and> int (length multiSol) = k)
           then Inl (Exception ''no sample'')
           else if multiSol = [] then Inl IndexError
           else map_err (\<lambda>i. propose_swap edgeWeights s (sol_swaps s ! i)) multiSol)"

text \<open>
  One round of the \<open>while\<close> loop, with \<open>weighted = False\<close> as the source fixes it.
  \<open>newSolutions[0]\<close> raises IndexError on an empty population.
\<close>

definition search_round :: "int \<Rightarrow> int \<Rightarrow> (int \<times> int) list \<Rightarrow> ((int \<times> int) \<times> rat) list
    \<Rightarrow> round_oracle \<Rightarrow> solution list \<Rightarrow> error + solution list" where
  "search_round kept multiplications sedges edgeWeights orc solutions =
     (if length (swap_samples orc) \<noteq> length solutions then Inl (Exception ''no sample'')
      else
        (case map_err (proposals_of multiplications edgeWeights) (zip solutions (swap_samples orc)) of
           Inl e \<Rightarrow> Inl e
         | Inr proposed \<Rightarrow>
             (case sort_key sol_length (solutions @ concat proposed) of
                [] \<Rightarrow> Inl IndexError
              | best # others \<Rightarrow>
                  if kept > 1 \<and> \<not> valid_sample (length others) (kept_sample orc)
                  then Inl (Exception ''no sample'')
                  else
                    let randomlyChosen = map (\<lambda>i. others ! i) (kept_sample orc);
                        bestRandoms = take (nat (kept - 1)) (sort_key sol_length randomlyChosen);
                        selected = (if kept > 1 then best # bestRandoms else [best])
                    in (case map_err (apply_swap sedges) selected of
                          Inl e \<Rightarrow> Inl e
                        | Inr rebuilt \<Rightarrow>
                            if length (tie_keys orc) \<noteq> length rebuilt then Inl (Exception ''no sample'')
                            else Inr (map fst (sort_key (\<lambda>(s, r). (sol_length s, r))
                                                 (zip rebuilt (tie_keys orc))))))))"

text \<open>
  The loop \<open>while swapCount < iterations\<close>: \<open>remaining\<close> is \<open>iterations - swapCount\<close>. The
  choices of round \<open>i\<close> are \<open>orc i\<close>, where \<open>None\<close> is a KeyboardInterrupt, which ends the
  loop; an interrupt is taken at the start of a round only.
\<close>

fun search_rounds :: "int \<Rightarrow> int \<Rightarrow> (int \<times> int) list \<Rightarrow> ((int \<times> int) \<times> rat) list
    \<Rightarrow> (nat \<Rightarrow> round_oracle option) \<Rightarrow> nat \<Rightarrow> nat \<Rightarrow> solution list \<Rightarrow> error + solution list" where
  "search_rounds kept multiplications sedges edgeWeights orc swapCount 0 solutions = Inr solutions"
| "search_rounds kept multiplications sedges edgeWeights orc swapCount (Suc remaining) solutions =
     (case orc swapCount of
        None \<Rightarrow> Inr solutions
      | Some choices \<Rightarrow>
          (case search_round kept multiplications sedges edgeWeights choices solutions of
             Inl e \<Rightarrow> Inl e
           | Inr solutions' \<Rightarrow>
               search_rounds kept multiplications sedges edgeWeights orc (Suc swapCount)
                 remaining solutions'))"

text \<open>
  After the loop: \<open>_, buses, length, _ = solutions[0]\<close> and
  \<open>buses.sort(key=lambda b: (-len(b), b[0]))\<close>, where \<open>b[0]\<close> raises IndexError on an empty
  duty. The result with \<open>asTrips = False\<close>.
\<close>

definition sort_duties :: "int list list \<Rightarrow> error + int list list" where
  "sort_duties buses =
     (if [] \<in> set buses then Inl IndexError else Inr (sort_key duty_key buses))"


text \<open>
  The set-up before the loop. The cached weights are those of the feasible edges and of
  their reversals; \<open>CreateDeadheadMap\<close> receives the dictionary \<open>stopsMap\<close> where it
  expects the list of stops, and numbers its keys in their order.
\<close>

definition cached_weights :: "(int \<times> int) list \<Rightarrow> Trip list \<Rightarrow> (string \<times> int) list \<Rightarrow> int list list
    \<Rightarrow> error + ((int \<times> int) \<times> rat) list" where
  "cached_weights edges trips stopsMap dists =
     (case CreateDeadheadMap edges trips (map fst stopsMap) dists None 0 0 of
        Inl e \<Rightarrow> Inl e
      | Inr edgesWeights \<Rightarrow>
          fold_err (\<lambda>(u, v) w.
             case GetDistFromEdge (v, u) trips stopsMap dists None 0 0 of
               Inl e \<Rightarrow> Inl e
             | Inr back \<Rightarrow> Inr (dict_set w (v, u) back))
            edges edgesWeights)"

text \<open>
  The first \<open>possibleSwaps\<close>: every duty against every later duty, every cut of the one
  against every cut of the other.
\<close>

definition swaps_of_pair :: "(int \<times> int) list \<Rightarrow> int \<Rightarrow> int list \<Rightarrow> int \<Rightarrow> int list \<Rightarrow> swap list
    \<Rightarrow> error + swap list" where
  "swaps_of_pair sedges busIndex1 bus1 busIndex2 bus2 acc =
     fold_err (\<lambda>tripIndex1 acc.
        case trip_before bus1 tripIndex1 of
          Inl e \<Rightarrow> Inl e
        | Inr a1 \<Rightarrow>
            (case trip_after bus1 tripIndex1 of
               Inl e \<Rightarrow> Inl e
             | Inr a2 \<Rightarrow>
                 if \<not> in_edges sedges a1 a2 then Inl AssertionError
                 else swaps_with_bus sedges busIndex1 tripIndex1 a1 a2 busIndex2 bus2 acc))
       (cut_points bus1) acc"

definition initial_swaps :: "(int \<times> int) list \<Rightarrow> int list list \<Rightarrow> error + swap list" where
  "initial_swaps sedges buses =
     fold_err (\<lambda>(busIndex1, bus1) acc.
        fold_err (\<lambda>busIndex2 acc.
           swaps_of_pair sedges (int busIndex1) bus1 (int busIndex2) (buses ! busIndex2) acc)
          [Suc busIndex1..<length buses] acc)
       (List.enumerate 0 buses) []"

text \<open>
  \<open>OptimizeTripsCircularApprox\<close> from the duty list \<open>defaultSolution\<close> on, which the source
  takes from the matching of \<open>OptimizeTripsFindOptimalDepot\<close>: the length of the first
  candidate is \<open>EvaluateLength\<close> of these duties, the loop runs, and the result is the
  sorted duty list of the first candidate, here together with the length that the loop
  holds for it (the source prints it as the total).
\<close>

definition local_search :: "Trip list \<Rightarrow> int list list \<Rightarrow> (string \<times> int) list \<Rightarrow> int list list
    \<Rightarrow> nat \<Rightarrow> int \<Rightarrow> int \<Rightarrow> (nat \<Rightarrow> round_oracle option) \<Rightarrow> error + (int list list \<times> rat)" where
  "local_search trips dists stopsMap defaultSolution iterations kept multiplications orc =
     (case EvaluateLength defaultSolution trips dists stopsMap of
        Inl e \<Rightarrow> Inl e
      | Inr len \<Rightarrow>
          (case CreateFeasibilityGraph trips stopsMap dists 24 of
             Inl e \<Rightarrow> Inl e
           | Inr edges \<Rightarrow>
               (case cached_weights edges trips stopsMap dists of
                  Inl e \<Rightarrow> Inl e
                | Inr edgesWeights \<Rightarrow>
                    (case initial_swaps edges defaultSolution of
                       Inl e \<Rightarrow> Inl e
                     | Inr possibleSwaps \<Rightarrow>
                         (case search_rounds kept multiplications edges edgesWeights orc 0 iterations
                                 [\<lparr>sol_swap = None, sol_buses = defaultSolution, sol_length = len,
                                   sol_swaps = possibleSwaps\<rparr>] of
                            Inl e \<Rightarrow> Inl e
                          | Inr solutions \<Rightarrow>
                              (case solutions of
                                 [] \<Rightarrow> Inl IndexError
                               | s # _ \<Rightarrow>
                                   (case sort_duties (sol_buses s) of
                                      Inl e \<Rightarrow> Inl e
                                    | Inr buses \<Rightarrow> Inr (buses, sol_length s))))))))"

text \<open>The objective value of the best candidate of a population.\<close>

definition best_length :: "solution list \<Rightarrow> rat" where
  "best_length solutions = Min (set (map sol_length solutions))"






text \<open>
  Example data: four stops A, B, C, D and three trips, 0: A to B from minute 480 to 510,
  1: B to C from 520 to 550, 2: D to D from 540 to 570. Trip 0 can be followed by trip 1
  and by trip 2. The choices of the one round: the only possible swap, and both
  candidates kept.
\<close>

definition ex_search_stops :: "(string \<times> int) list" where
  "ex_search_stops = [(''A'', 0), (''B'', 1), (''C'', 2), (''D'', 3)]"

definition ex_search_dists :: "int list list" where
  "ex_search_dists = [[0, 40, 60, 30], [40, 0, 50, 20], [60, 50, 0, 10], [30, 20, 10, 0]]"

definition ex_search_trips :: "Trip list" where
  "ex_search_trips =
     [ex_trip ''A'' ''B'' 480 510, ex_trip ''B'' ''C'' 520 550, ex_trip ''D'' ''D'' 540 570]"

definition ex_search_choices :: round_oracle where
  "ex_search_choices = \<lparr>swap_samples = [[0]], kept_sample = [0], tie_keys = [1 / 2, 1 / 3]\<rparr>"
section \<open>Serialization: Trip.ToDictForJson, Trip.FromDictForJson and the schedule structure\<close>

























section \<open>Scheduling_Main.OptimizeTripsCircularsExact: after the optimization\<close>

text \<open>
  The MILP solver is outside the repository. What it returns is an argument here: the
  status of \<open>m.optimize()\<close>, the variables \<open>m.vars\<close> with their values \<open>var.x\<close> (\<open>None\<close> when
  the solver has no value) and \<open>m.objective_value\<close>. A variable named \<open>B{b},{u},{v}\<close> is the
  triple of its numbers. Values are exact rationals. The file system is a map from file
  names to the lines written, and a line is kept as its parts, not as text.
\<close>

datatype OptimizationStatus =
    ERROR | OPTIMAL | INFEASIBLE | UNBOUNDED | FEASIBLE | INT_INFEASIBLE
  | NO_SOLUTION_FOUND | LOADED | CUTOFF | OTHER

record mip_var =
  var_name :: "nat \<times> int \<times> int"
  var_x :: "rat option"

datatype sol_line =
    RawValue "nat \<times> int \<times> int" "rat option"
  | ChosenValue "nat \<times> int \<times> int" int
  | ObjectiveValue "rat option"

text \<open>
  The lines of the successful branch: one for each variable with \<open>var.x >= 1 - 2 ** -4\<close>,
  with \<open>int(var.x)\<close>; comparing \<open>None\<close> with a number raises TypeError, after the lines of
  the variables before it.
\<close>

fun chosen_lines :: "mip_var list \<Rightarrow> sol_line list \<times> bool" where
  "chosen_lines [] = ([], True)"
| "chosen_lines (v # vs) =
     (case var_x v of
        None \<Rightarrow> ([], False)
      | Some x \<Rightarrow>
          let (ls, ok) = chosen_lines vs
          in (if x \<ge> 1 - 1 / 16 then ChosenValue (var_name v) \<lfloor>x\<rfloor> # ls else ls, ok))"

text \<open>
  The duties read from the chosen variables: \<open>buses[int(b)].add(int(f))\<close> for every variable
  with \<open>abs(x - 1) < 2 ** -4\<close>, then each set sorted.
\<close>

fun collect_buses :: "mip_var list \<Rightarrow> int list list \<Rightarrow> error + int list list" where
  "collect_buses [] buses = Inr buses"
| "collect_buses (v # vs) buses =
     (case var_x v of
        None \<Rightarrow> Inl TypeError
      | Some x \<Rightarrow>
          if \<bar>x - 1\<bar> < 1 / 16 then
            (case var_name v of (b, f, t) \<Rightarrow>
               (case py_index buses (int b) of
                  Inl e \<Rightarrow> Inl e
                | Inr bs \<Rightarrow>
                    (case py_assign buses (int b) (set_add bs f) of
                       Inl e \<Rightarrow> Inl e
                     | Inr buses' \<Rightarrow> collect_buses vs buses')))
          else collect_buses vs buses)"

definition OptimizeTripsCircularsExact_result :: "OptimizationStatus \<Rightarrow> mip_var list \<Rightarrow> rat option
    \<Rightarrow> Trip list \<Rightarrow> nat \<Rightarrow> (string \<rightharpoonup> sol_line list)
    \<Rightarrow> (string \<rightharpoonup> sol_line list) \<times> (error + Trip list list)" where
  "OptimizeTripsCircularsExact_result status vars objective_value trips buscount files =
     (if status = NO_SOLUTION_FOUND \<or> status = INFEASIBLE then
        (files(''model.sol'' \<mapsto>
           map (\<lambda>v. RawValue (var_name v) (var_x v)) vars @ [ObjectiveValue objective_value]),
         Inl (Exception ''No solution found''))
      else
        (case chosen_lines vars of
           (ls, False) \<Rightarrow> (files(''model.sol'' \<mapsto> ls), Inl TypeError)
         | (ls, True) \<Rightarrow>
             (files(''model.sol'' \<mapsto> ls @ [ObjectiveValue objective_value]),
              (case collect_buses vars (replicate buscount []) of
                 Inl e \<Rightarrow> Inl e
               | Inr buses \<Rightarrow>
                   map_err (\<lambda>bs. map_err (py_index trips) (sort bs)) buses))))"

section \<open>Properties of the time parser and of the minute recomputation\<close>

lemma split_on_nonempty: "split_on d s \<noteq> []"
  by (induction s) (auto split: list.splits)

lemma ParseHxM_range:
  assumes "ParseHxM td s = Inr r"
  shows "0 \<le> r \<and> r < 1440"
  using assms
  by (auto simp: ParseHxM_def split: list.splits if_splits option.splits)

lemma split_on_sep: "split_on d (d # cs) = [] # split_on d cs"
  by simp

lemma split_on_other:
  "c \<noteq> d \<Longrightarrow> split_on d (c # cs) = (c # hd (split_on d cs)) # tl (split_on d cs)"
  using split_on_nonempty[of d cs] by (cases "split_on d cs") simp_all

lemma split_on_one: "split_on d s = [b] \<longleftrightarrow> s = b \<and> d \<notin> set b"
proof (induction s arbitrary: b)
  case Nil
  show ?case by auto
next
  case (Cons c cs)
  show ?case
  proof (cases "c = d")
    case True
    then show ?thesis using split_on_nonempty[of d cs] by (auto simp: split_on_sep)
  next
    case False
    have "split_on d (c # cs) = [b] \<longleftrightarrow> (\<exists>p. b = c # p \<and> split_on d cs = [p])"
      using split_on_nonempty[of d cs] False
      by (cases "split_on d cs") (auto simp: split_on_other simp del: split_on.simps)
    also have "\<dots> \<longleftrightarrow> (\<exists>p. b = c # p \<and> cs = p \<and> d \<notin> set p)"
      using Cons.IH by simp
    also have "\<dots> \<longleftrightarrow> c # cs = b \<and> d \<notin> set b"
      using False by auto
    finally show ?thesis .
  qed
qed

lemma split_on_two:
  "split_on d s = [a, b] \<longleftrightarrow> s = a @ d # b \<and> d \<notin> set a \<and> d \<notin> set b"
proof (induction s arbitrary: a)
  case Nil
  show ?case by simp
next
  case (Cons c cs)
  show ?case
  proof (cases "c = d")
    case True
    have "split_on d (c # cs) = [a, b] \<longleftrightarrow> a = [] \<and> split_on d cs = [b]"
      using True by (auto simp: split_on_sep simp del: split_on.simps)
    also have "\<dots> \<longleftrightarrow> a = [] \<and> cs = b \<and> d \<notin> set b"
      by (simp add: split_on_one)
    also have "\<dots> \<longleftrightarrow> c # cs = a @ d # b \<and> d \<notin> set a \<and> d \<notin> set b"
      using True by (cases a) auto
    finally show ?thesis .
  next
    case False
    have "split_on d (c # cs) = [a, b] \<longleftrightarrow> (\<exists>p. a = c # p \<and> split_on d cs = [p, b])"
      using split_on_nonempty[of d cs] False
      by (cases "split_on d cs") (auto simp: split_on_other simp del: split_on.simps)
    also have "\<dots> \<longleftrightarrow> (\<exists>p. a = c # p \<and> cs = p @ d # b \<and> d \<notin> set p \<and> d \<notin> set b)"
      using Cons.IH by simp
    also have "\<dots> \<longleftrightarrow> c # cs = a @ d # b \<and> d \<notin> set a \<and> d \<notin> set b"
      using False by (cases a) auto
    finally show ?thesis .
  qed
qed

text \<open>
  The reading of one or two ASCII code points: \<open>ascii_short\<close> is \<open>short_int\<close> after the
  string has been brought to ASCII.
\<close>

lemma digit_not_space: "ascii_digit c \<Longrightarrow> \<not> ascii_space c"
  by (auto simp: ascii_digit_def ascii_space_def)

lemma digit_not_sign: "ascii_digit c \<Longrightarrow> c \<noteq> 43 \<and> c \<noteq> 45 \<and> c \<noteq> 95"
  by (auto simp: ascii_digit_def)

lemma space_not_sign: "ascii_space c \<Longrightarrow> c \<noteq> 43 \<and> c \<noteq> 45 \<and> c \<noteq> 95"
  by (auto simp: ascii_space_def)

lemma ascii_int_one:
  "ascii_int [c] = (if ascii_digit c then Some (ascii_val c) else None)"
  by (auto simp: ascii_int_def py_strip_def digit_not_space digit_not_sign space_not_sign)

lemma ascii_int_two:
  "ascii_int [c, d] =
     (if ascii_digit c \<and> ascii_digit d then Some (10 * ascii_val c + ascii_val d)
      else if ascii_digit d \<and> (c = 43 \<or> ascii_space c) then Some (ascii_val d)
      else if ascii_digit d \<and> c = 45 then Some (- ascii_val d)
      else if ascii_digit c \<and> ascii_space d then Some (ascii_val c)
      else None)"
  by (cases "ascii_space c"; cases "ascii_space d"; cases "ascii_digit c"; cases "ascii_digit d")
     (auto simp: ascii_int_def py_strip_def digit_not_space digit_not_sign space_not_sign)

lemma to_ascii_None:
  assumes "to_ascii td c = None"
  shows "int_digit td c = None \<and> \<not> int_space c \<and> c \<noteq> 43 \<and> c \<noteq> 45"
  using assms
  by (auto simp: to_ascii_def int_digit_def int_space_def ascii_space_def
      split: if_splits option.splits)

lemma to_ascii_Some:
  assumes "to_ascii td c = Some a"
  shows "int_digit td c = (if ascii_digit a then Some (ascii_val a) else None)
         \<and> int_space c = ascii_space a \<and> (c = 43 \<longleftrightarrow> a = 43) \<and> (c = 45 \<longleftrightarrow> a = 45)"
proof (cases "c < 127")
  case True
  with assms have "a = c" by (simp add: to_ascii_def)
  with True show ?thesis by (auto simp: int_digit_def int_space_def)
next
  case False
  show ?thesis
  proof (cases "unicode_space c")
    case True
    with False assms have "a = 32" by (simp add: to_ascii_def)
    with False True show ?thesis
      by (simp add: int_digit_def int_space_def ascii_digit_def ascii_space_def)
  next
    case u: False
    with False assms obtain d where d: "td c = Some d" "d < 10" "a = 48 + d"
      by (auto simp: to_ascii_def split: option.splits if_splits)
    with False u show ?thesis
      by (auto simp: int_digit_def int_space_def ascii_digit_def ascii_space_def ascii_val_def)
  qed
qed

lemma py_int_one: "py_int td [c] = short_int td [c]"
proof (cases "to_ascii td c")
  case None
  then show ?thesis using to_ascii_None[OF None] by (simp add: py_int_def)
next
  case (Some a)
  then show ?thesis using to_ascii_Some[OF Some] by (simp add: py_int_def ascii_int_one)
qed

lemma py_int_two: "py_int td [c, d] = short_int td [c, d]"
proof (cases "to_ascii td c")
  case None
  then show ?thesis
    using to_ascii_None[OF None]
    by (cases "int_digit td d") (simp_all add: py_int_def)
next
  case c: (Some a)
  show ?thesis
  proof (cases "to_ascii td d")
    case None
    then show ?thesis
      using to_ascii_None[OF None] c to_ascii_Some[OF c]
      by (simp add: py_int_def)
  next
    case d: (Some b)
    have "py_int td [c, d] = ascii_int [a, b]"
      using c d by (simp add: py_int_def)
    then show ?thesis
      using to_ascii_Some[OF c] to_ascii_Some[OF d]
      by (simp add: ascii_int_two digit_not_space digit_not_sign)
  qed
qed

lemma py_int_short: "length s \<le> 2 \<Longrightarrow> py_int td s = short_int td s"
proof (cases s)
  case Nil
  then show ?thesis by (simp add: py_int_def ascii_int_def py_strip_def)
next
  case (Cons c cs)
  assume len: "length s \<le> 2"
  show ?thesis
  proof (cases cs)
    case Nil
    with Cons show ?thesis by (simp only: py_int_one)
  next
    case (Cons d ds)
    with \<open>s = c # cs\<close> len have "ds = []" by simp
    with Cons \<open>s = c # cs\<close> show ?thesis by (simp only: py_int_two)
  qed
qed

lemma short_int_length: "short_int td s = Some v \<Longrightarrow> length s = 1 \<or> length s = 2"
  by (cases "(td, s)" rule: short_int.cases) auto

lemma int_digit_ascii: "ascii_digit c \<Longrightarrow> int_digit td c = Some (ascii_val c)"
  by (simp add: int_digit_def ascii_digit_def)

lemma short_int_digits:
  assumes "length s = 1 \<or> length s = 2" "list_all ascii_digit s"
  shows "short_int td s = Some (decimal_value s)"
  using assms
  by (cases "(td, s)" rule: short_int.cases) (auto simp: decimal_value_def int_digit_ascii)

lemma ascii_val_nonneg: "ascii_digit c \<Longrightarrow> 0 \<le> ascii_val c"
  by (simp add: ascii_digit_def ascii_val_def)

lemma ParseHxM_short:
  "ParseHxM td s = Inr r \<longleftrightarrow>
     (\<exists>shh smm hh mm. split_on 58 s = [shh, smm] \<and> length smm = 2
        \<and> short_int td shh = Some hh \<and> short_int td smm = Some mm
        \<and> 0 \<le> hh \<and> hh < 24 \<and> 0 \<le> mm \<and> mm < 60 \<and> r = 60 * hh + mm)"
proof
  assume "ParseHxM td s = Inr r"
  then obtain shh smm hh mm where p: "split_on 58 s = [shh, smm]"
      "length shh = 1 \<or> length shh = 2" "length smm = 2"
      "py_int td shh = Some hh" "py_int td smm = Some mm"
      "0 \<le> hh" "hh < 24" "0 \<le> mm" "mm < 60" "r = 60 * hh + mm"
    by (auto simp: ParseHxM_def split: list.splits if_splits option.splits)
  from p(2,4) have "short_int td shh = Some hh" using py_int_short[of shh td] by auto
  moreover from p(3,5) have "short_int td smm = Some mm" using py_int_short[of smm td] by auto
  ultimately show "\<exists>shh smm hh mm. split_on 58 s = [shh, smm] \<and> length smm = 2
        \<and> short_int td shh = Some hh \<and> short_int td smm = Some mm
        \<and> 0 \<le> hh \<and> hh < 24 \<and> 0 \<le> mm \<and> mm < 60 \<and> r = 60 * hh + mm"
    using p by blast
next
  assume "\<exists>shh smm hh mm. split_on 58 s = [shh, smm] \<and> length smm = 2
        \<and> short_int td shh = Some hh \<and> short_int td smm = Some mm
        \<and> 0 \<le> hh \<and> hh < 24 \<and> 0 \<le> mm \<and> mm < 60 \<and> r = 60 * hh + mm"
  then obtain shh smm hh mm where p: "split_on 58 s = [shh, smm]" "length smm = 2"
      "short_int td shh = Some hh" "short_int td smm = Some mm"
      "0 \<le> hh" "hh < 24" "0 \<le> mm" "mm < 60" "r = 60 * hh + mm"
    by blast
  from p(3) have l: "length shh = 1 \<or> length shh = 2" by (rule short_int_length)
  then have "py_int td shh = Some hh" using py_int_short[of shh td] p(3) by auto
  moreover have "py_int td smm = Some mm" using py_int_short[of smm td] p(2,4) by auto
  ultimately show "ParseHxM td s = Inr r"
    using p l by (auto simp: ParseHxM_def)
qed

lemma spec_ParseHxM_accepted:
  assumes "spec_ParseHxM s = Some r"
  shows "ParseHxM td s = Inr r"
proof -
  from assms obtain shh smm where p: "split_on 58 s = [shh, smm]"
      "length shh = 1 \<or> length shh = 2" "length smm = 2"
      "list_all ascii_digit shh" "list_all ascii_digit smm"
      "decimal_value shh < 24" "decimal_value smm < 60"
      "r = 60 * decimal_value shh + decimal_value smm"
    by (auto simp: spec_ParseHxM_def split: list.splits if_splits)
  have h: "short_int td shh = Some (decimal_value shh)"
    using p(2,4) by (rule short_int_digits)
  have m: "short_int td smm = Some (decimal_value smm)"
    using p(3,5) by (simp add: short_int_digits)
  have h0: "0 \<le> decimal_value shh"
    using p(2,4)
    by (cases "(td, shh)" rule: short_int.cases) (auto simp: decimal_value_def ascii_val_nonneg)
  have m0: "0 \<le> decimal_value smm"
    using p(3,5)
    by (cases "(td, smm)" rule: short_int.cases) (auto simp: decimal_value_def ascii_val_nonneg)
  show ?thesis
    unfolding ParseHxM_short using p h m h0 m0 by blast
qed

text \<open>
  C10, as amended. For every table of decimal digits and every string of code points,
  \<open>ParseHxM\<close> returns a value exactly on the strings with one colon whose minute part has
  two code points and whose hour part has one or two, where each part is what \<open>int\<close>
  reads as a number (digits only, ASCII or any decimal digit of Unicode, or a single digit
  with a sign or white space beside it), the hour in 0..23 and the minute in 0..59; the
  value is 60 * hour + minute. Every string of the specification (ASCII digits only) is
  among them. Every other input, such as an hour of 24 or more, raises ValueError.
\<close>

theorem ParseHxM_accepts_exactly:
  "(ParseHxM td s = Inr r \<longleftrightarrow>
      (\<exists>shh smm hh mm. s = shh @ 58 # smm
         \<and> 58 \<notin> set shh \<and> 58 \<notin> set smm \<and> length smm = 2
         \<and> short_int td shh = Some hh \<and> short_int td smm = Some mm
         \<and> 0 \<le> hh \<and> hh < 24 \<and> 0 \<le> mm \<and> mm < 60 \<and> r = 60 * hh + mm))
   \<and> (spec_ParseHxM s = Some r \<longrightarrow> ParseHxM td s = Inr r)
   \<and> (ParseHxM td s = Inr r \<longrightarrow> 0 \<le> r \<and> r < 1440)
   \<and> ((\<exists>v. ParseHxM td s = Inr v) \<or> (\<exists>msg. ParseHxM td s = Inl (ValueError msg)))"
proof (intro conjI)
  show "ParseHxM td s = Inr r \<longleftrightarrow>
      (\<exists>shh smm hh mm. s = shh @ 58 # smm
         \<and> 58 \<notin> set shh \<and> 58 \<notin> set smm \<and> length smm = 2
         \<and> short_int td shh = Some hh \<and> short_int td smm = Some mm
         \<and> 0 \<le> hh \<and> hh < 24 \<and> 0 \<le> mm \<and> mm < 60 \<and> r = 60 * hh + mm)"
    unfolding ParseHxM_short split_on_two by blast
  show "spec_ParseHxM s = Some r \<longrightarrow> ParseHxM td s = Inr r"
    by (simp add: spec_ParseHxM_accepted)
  show "ParseHxM td s = Inr r \<longrightarrow> 0 \<le> r \<and> r < 1440"
    using ParseHxM_range by blast
  show "(\<exists>v. ParseHxM td s = Inr v) \<or> (\<exists>msg. ParseHxM td s = Inl (ValueError msg))"
    by (auto simp: ParseHxM_def split: list.splits option.splits)
qed

theorem ParseHxM_accepts_exactly_witness:
  "spec_ParseHxM (codes ''08:30'') = Some 510 \<and> ParseHxM ex_todecimal (codes ''08:30'') = Inr 510
   \<and> (0::int) \<le> 510 \<and> (510::int) < 1440
   \<and> ParseHxM ex_todecimal (codes ''24:30'') = Inl (ValueError ''More than 23 hours'')
   \<and> ParseHxM ex_todecimal [1633, 1634, 58, 8195, 53] = Inr 725
   \<and> (\<exists>msg. ParseHxM ex_todecimal [28, 53, 58, 51, 48] = Inl (ValueError msg))"
proof -
  have s: "spec_ParseHxM (codes ''08:30'') = Some 510"
    by (simp add: spec_ParseHxM_def codes_def decimal_value_def ascii_val_def ascii_digit_def)
  have e: "ParseHxM ex_todecimal (codes ''24:30'') = Inl (ValueError ''More than 23 hours'')"
    by (simp add: ParseHxM_def codes_def py_int_def to_ascii_def ascii_int_def py_strip_def
        ascii_space_def ascii_digit_def ascii_val_def)
  have u: "ParseHxM ex_todecimal [1633, 1634, 58, 8195, 53] = Inr 725"
    by (simp add: ParseHxM_def py_int_def to_ascii_def unicode_space_def ex_todecimal_def
        ascii_int_def py_strip_def ascii_space_def ascii_digit_def ascii_val_def)
  have f: "ParseHxM ex_todecimal [28, 53, 58, 51, 48] = Inl (ValueError ''invalid literal for int()'')"
    by (simp add: ParseHxM_def py_int_def to_ascii_def unicode_space_def ex_todecimal_def
        ascii_int_def py_strip_def ascii_space_def ascii_digit_def ascii_val_def)
  from s e u f ParseHxM_accepts_exactly[of ex_todecimal "codes ''08:30''" 510] show ?thesis
    by simp
qed

text \<open>
  C10 as stated fails: \<open>int\<close> accepts a sign, so the string \<open>+5:30\<close>, whose hour is not
  a one- or two-digit number, is parsed to 330 minutes.
\<close>

theorem ParseHxM_signed_hour_counterexample:
  "ParseHxM ex_todecimal (codes ''+5:30'') = Inr 330 \<and> spec_ParseHxM (codes ''+5:30'') = None"
  by (simp add: ParseHxM_def spec_ParseHxM_def codes_def py_int_def to_ascii_def ascii_int_def
      py_strip_def ascii_space_def ascii_digit_def ascii_val_def)

text \<open>
  C4. For every trip whose start and end time parse, \<open>RecalcMinutes\<close> returns, the end
  minute is not before the start minute, 1440 is added to the end exactly when the parsed
  end is before the parsed start (once: the trip then lasts less than 1440 minutes), and
  the day offset is added to both alike.
\<close>

theorem RecalcMinutes_end_not_before_start:
  assumes "ParseHxM td (codes (StartTime t)) = Inr s"
    and "ParseHxM td (codes (EndTime t)) = Inr e"
  shows "\<exists>t'. RecalcMinutes td t firstDay = Inr t'
           \<and> StartTimeMins t' = s + day_offset t firstDay
           \<and> EndTimeMins t' = e + (if e < s then 1440 else 0) + day_offset t firstDay
           \<and> StartTimeMins t' \<le> EndTimeMins t'
           \<and> EndTimeMins t' - StartTimeMins t' < 1440"
proof -
  from assms ParseHxM_range have r: "0 \<le> s" "s < 1440" "0 \<le> e" "e < 1440" by blast+
  show ?thesis
    using assms r
    by (cases "Day t"; cases firstDay) (auto simp: RecalcMinutes_def day_offset_def Let_def)
qed

theorem RecalcMinutes_end_not_before_start_witness:
  "ParseHxM ex_todecimal (codes ''23:50'') = Inr 1430
   \<and> ParseHxM ex_todecimal (codes ''00:20'') = Inr 20
   \<and> (\<exists>t'. RecalcMinutes ex_todecimal
          \<lparr>Line = 1, TripNo = 7, StartStop = ''A'', EndStop = ''B'', StartTime = ''23:50'',
           EndTime = ''00:20'', Via = None,
           Day = Some \<lparr>year = 2024, month = 3, day = 2\<rparr>,
           StartTimeMins = - 1, EndTimeMins = - 1\<rparr>
          (Some \<lparr>year = 2024, month = 3, day = 1\<rparr>) = Inr t'
        \<and> StartTimeMins t' = 2870 \<and> EndTimeMins t' = 2900
        \<and> StartTimeMins t' \<le> EndTimeMins t')"
proof -
  let ?t = "\<lparr>Line = 1, TripNo = 7, StartStop = ''A'', EndStop = ''B'', StartTime = ''23:50'',
           EndTime = ''00:20'', Via = None,
           Day = Some \<lparr>year = 2024, month = 3, day = 2\<rparr>,
           StartTimeMins = - 1, EndTimeMins = - 1\<rparr>"
  let ?f = "Some \<lparr>year = 2024, month = 3, day = 1\<rparr>"
  have s: "ParseHxM ex_todecimal (codes ''23:50'') = Inr 1430"
    by (simp add: ParseHxM_def codes_def py_int_def to_ascii_def ascii_int_def py_strip_def
        ascii_space_def ascii_digit_def ascii_val_def)
  have e: "ParseHxM ex_todecimal (codes ''00:20'') = Inr 20"
    by (simp add: ParseHxM_def codes_def py_int_def to_ascii_def ascii_int_def py_strip_def
        ascii_space_def ascii_digit_def ascii_val_def)
  have s': "ParseHxM ex_todecimal (codes (StartTime ?t)) = Inr 1430" using s by simp
  have e': "ParseHxM ex_todecimal (codes (EndTime ?t)) = Inr 20" using e by simp
  have off: "day_offset ?t ?f = 1440"
    by (simp add: day_offset_def toordinal_def days_before_year_def days_before_month_def
        is_leap_def)
  from RecalcMinutes_end_not_before_start [OF s' e', of ?f]
  obtain t' where t': "RecalcMinutes ex_todecimal ?t ?f = Inr t'"
      "StartTimeMins t' = 1430 + day_offset ?t ?f"
      "EndTimeMins t' = 20 + (if (20::int) < 1430 then 1440 else 0) + day_offset ?t ?f"
      "StartTimeMins t' \<le> EndTimeMins t'"
    by blast
  from t'(2,3) off have "StartTimeMins t' = 2870" "EndTimeMins t' = 2900" by simp_all
  with t'(1,4) s e show ?thesis by blast
qed
section \<open>Properties of the feasibility graph\<close>

text \<open>
  C2. The code evaluated on one trip of no duration that starts and ends at the stop A,
  at minute 480, with the one-stop matrix \<open>[[0]]\<close> and a window of 24 hours. The pairs of
  the claim are none, since there is no second trip. The comprehension of the source tests
  every pair of positions, the pair of a trip with itself too, and \<open>480 + 0 \<le> 480 \<le> 480 +
  1440\<close> holds, so the builder returns the pair \<open>(0, 0)\<close>. The chainer makes of this edge
  a duty that holds trip 0 twice.
\<close>

theorem CreateFeasibilityGraph_self_pair:
  "CreateFeasibilityGraph [ex_trip ''A'' ''A'' 480 480] [(''A'', 0)] [[0]] 24 = Inr [(0, 0)]
   \<and> spec_feasible_pairs [ex_trip ''A'' ''A'' 480 480] [(''A'', 0)] [[0]] 24 = {}
   \<and> ConvertEdgesToBuses 1 [(0, 0)] = Some [[0, 0]]"
proof -
  have c: "CreateFeasibilityGraph [ex_trip ''A'' ''A'' 480 480] [(''A'', 0)] [[0]] 24 = Inr [(0, 0)]"
    by (simp add: CreateFeasibilityGraph_def can_follow_def ex_trip_def stop_distance_def
        dict_index_def dict_get_def np_index2_def py_index_def int64_add_def int64_def
        fits_int64_def)
  have s: "spec_feasible_pairs [ex_trip ''A'' ''A'' 480 480] [(''A'', 0)] [[0]] 24 = {}"
    by (auto simp: spec_feasible_pairs_def)
  have b: "ConvertEdgesToBuses 1 [(0, 0)] = Some [[0, 0]]"
    by code_simp
  from c s b show ?thesis by simp
qed
section \<open>Properties of the depot evaluation and of the edge cost\<close>

text \<open>
  C1. The code evaluated on three stops A, B, C with distances A-B 10, A-C 10, B-C 5 and
  the three trips 0: A to B, 1: A to C (both 480 to 510) and 2: B to B (520 to 550). The
  feasible edges are \<open>(0, 2)\<close>, of cost 0.01, and \<open>(1, 2)\<close>, of cost 5.005; the matching
  of least weight chains trip 2 to trip 0, so the duties are \<open>[0, 2]\<close> and \<open>[1]\<close>. The two
  duties start at A and end at B and at C, so the sum of the claim is 20 for depot A and
  25 for B and for C, and A is the only minimizer. The edge \<open>(b[0], -1)\<close> of the source is
  not a pull-out edge: \<open>-1\<close> in second place is the list index of the last trip, so the
  first term is the distance from the end stop of the duty's first trip to the start stop
  of the last trip of the trip list, the same for every depot. \<open>evalDepot\<close> gives 25, 10,
  10 and the selected depot is B.
\<close>

theorem evalDepot_ignores_pull_out:
  "CreateFeasibilityGraph ex_depot_trips ex_depot_stops ex_depot_dists 24 = Inr [(0, 2), (1, 2)]
   \<and> GetDistFromEdge (0, 2) ex_depot_trips ex_depot_stops ex_depot_dists None 0 0 = Inr (1 / 100)
   \<and> GetDistFromEdge (1, 2) ex_depot_trips ex_depot_stops ex_depot_dists None 0 0 = Inr (1001 / 200)
   \<and> ConvertEdgesToBuses 3 [(0, 2)] = Some [[0, 2], [1]]
   \<and> bestDepotHeur [[0, 2], [1]] ex_depot_trips ex_depot_stops ex_depot_dists = Inr 1
   \<and> evalDepot [[0, 2], [1]] ex_depot_trips ex_depot_stops ex_depot_dists 0 = Inr 25
   \<and> evalDepot [[0, 2], [1]] ex_depot_trips ex_depot_stops ex_depot_dists 1 = Inr 10
   \<and> evalDepot [[0, 2], [1]] ex_depot_trips ex_depot_stops ex_depot_dists 2 = Inr 10
   \<and> spec_depot_sum [[0, 2], [1]] ex_depot_trips ex_depot_stops ex_depot_dists 0 = Inr 20
   \<and> spec_depot_sum [[0, 2], [1]] ex_depot_trips ex_depot_stops ex_depot_dists 1 = Inr 25
   \<and> spec_depot_sum [[0, 2], [1]] ex_depot_trips ex_depot_stops ex_depot_dists 2 = Inr 25"
proof -
  have f: "CreateFeasibilityGraph ex_depot_trips ex_depot_stops ex_depot_dists 24
      = Inr [(0, 2), (1, 2)]"
    by (simp add: CreateFeasibilityGraph_def can_follow_def stop_distance_def dict_index_def
        dict_get_def np_index2_def py_index_def int64_add_def int64_def fits_int64_def
        ex_depot_trips_def ex_depot_stops_def ex_depot_dists_def ex_trip_def upt_rec)
  have g: "GetDistFromEdge (0, 2) ex_depot_trips ex_depot_stops ex_depot_dists None 0 0 = Inr (1 / 100)"
    "GetDistFromEdge (1, 2) ex_depot_trips ex_depot_stops ex_depot_dists None 0 0 = Inr (1001 / 200)"
    by (simp_all add: GetDistFromEdge_def edge_from_def edge_to_def edge_penalty_def
        waitingTime_def int64_sub_def int64_def fits_int64_def
        py_index_def np_index2_def dict_get_def ex_depot_trips_def ex_depot_stops_def
        ex_depot_dists_def ex_trip_def)
  have c: "ConvertEdgesToBuses 3 [(0, 2)] = Some [[0, 2], [1]]"
    by code_simp
  have e: "evalDepot [[0, 2], [1]] ex_depot_trips ex_depot_stops ex_depot_dists 0 = Inr 25"
    "evalDepot [[0, 2], [1]] ex_depot_trips ex_depot_stops ex_depot_dists 1 = Inr 10"
    "evalDepot [[0, 2], [1]] ex_depot_trips ex_depot_stops ex_depot_dists 2 = Inr 10"
    by (simp_all add: evalDepot_def GetDistFromEdge_def edge_from_def edge_to_def edge_penalty_def
        py_index_def np_index2_def int64_def dict_get_def ex_depot_trips_def ex_depot_stops_def
        ex_depot_dists_def ex_trip_def)
  have s: "spec_depot_sum [[0, 2], [1]] ex_depot_trips ex_depot_stops ex_depot_dists 0 = Inr 20"
    "spec_depot_sum [[0, 2], [1]] ex_depot_trips ex_depot_stops ex_depot_dists 1 = Inr 25"
    "spec_depot_sum [[0, 2], [1]] ex_depot_trips ex_depot_stops ex_depot_dists 2 = Inr 25"
    by (simp_all add: spec_depot_sum_def py_index_def np_index2_def int64_def dict_get_def
        ex_depot_trips_def ex_depot_stops_def ex_depot_dists_def ex_trip_def)
  have b: "bestDepotHeur [[0, 2], [1]] ex_depot_trips ex_depot_stops ex_depot_dists = Inr 1"
    unfolding bestDepotHeur_def using e by (simp add: ex_depot_stops_def)
  from f g c e s b show ?thesis by simp
qed



























section \<open>Properties of the trip chainer and of the order of the duties\<close>
















lemma follow_chain_cycle:
  assumes "follow_chain [(1, 2), (2, 1)] 3 v used cur = Some y"
  shows "v \<noteq> 1 \<and> v \<noteq> 2"
proof (rule follow_chain.raw_induct
    [where P = "\<lambda>be n v used cur y. be = [(1, 2), (2, 1)] \<and> n = 3 \<longrightarrow> v \<noteq> 1 \<and> v \<noteq> 2",
     OF _ assms, rule_format], goal_cases)
  case (1 f be n v used cur y)
  from 1(3) have be: "be = [(1, 2), (2, 1)]" and n: "n = 3" by simp_all
  show ?case
  proof (intro conjI notI)
    assume "v = 1"
    with 1(2) be n have "f be n 2 (2 # used) (cur @ [2]) = Some y"
      by (simp add: dict_get_def)
    from 1(1) [OF this] be n show False by simp
  next
    assume "v = 2"
    with 1(2) be n have "f be n 1 (1 # used) (cur @ [1]) = Some y"
      by (simp add: dict_get_def)
    from 1(1) [OF this] be n show False by simp
  qed
next
  show "[(1, 2), (2, 1)] = [(1, 2), (2, 1)] \<and> (3::int) = 3" by simp
qed

lemma follow_chain_cycle_None: "follow_chain [(1, 2), (2, 1)] 3 2 used cur = None"
  using follow_chain_cycle [of 2 used cur] by (cases "follow_chain [(1, 2), (2, 1)] 3 2 used cur") auto

text \<open>
  C3. The code evaluated on two lists of edges of a matching. For five trips and the edges
  1 to 2, 3 to 4 and 4 to 1 (the chain 3, 4, 1, 2, whose first trip does not have the
  least index) the trips 1 and 2 are in two duties: the inner loop walks into the chain
  that begins at trip 1 without looking at \<open>used\<close>. For the edges 1 to 2 and 2 to 1 the
  inner loop does not end, and no duty list is returned.
\<close>

theorem ConvertEdgesToBuses_repeats_trips:
  "matching_edges 5 [(1, 2), (3, 4), (4, 1)]
   \<and> ConvertEdgesToBuses 5 [(1, 2), (3, 4), (4, 1)] = Some [[3, 4, 1, 2], [1, 2], [0]]
   \<and> matching_edges 3 [(1, 2), (2, 1)]
   \<and> ConvertEdgesToBuses 3 [(1, 2), (2, 1)] = None"
proof -
  have a: "matching_edges 5 [(1, 2), (3, 4), (4, 1)]" "matching_edges 3 [(1, 2), (2, 1)]"
    by (simp_all add: matching_edges_def)
  have b: "ConvertEdgesToBuses 5 [(1, 2), (3, 4), (4, 1)] = Some [[3, 4, 1, 2], [1, 2], [0]]"
    by code_simp
  have s: "sort [(1, 2), (2, 1 :: int)] = [(1 :: int, 2), (2, 1)]"
    by (simp add: less_eq_prod_def)
  have c: "ConvertEdgesToBuses 3 [(1, 2), (2, 1)] = None"
    by (simp add: ConvertEdgesToBuses_def s follow_chain_cycle_None)
  from a b c show ?thesis by simp
qed


section \<open>Properties of the iteration loop of the local search\<close>

lemma map_err_Inr:
  assumes "map_err f xs = Inr ys"
  shows "list_all2 (\<lambda>x y. f x = Inr y) xs ys"
  using assms
proof (induction xs arbitrary: ys)
  case Nil
  then show ?case by simp
next
  case (Cons x xs)
  then show ?case by (auto split: sum.splits)
qed

lemma apply_swap_length:
  assumes "apply_swap sedges s = Inr s'"
  shows "sol_length s' = sol_length s"
  using assms
  by (auto simp: apply_swap_def Let_def split: option.splits prod.splits sum.splits if_splits)

lemma rebuilt_lengths:
  assumes "map_err (apply_swap sedges) xs = Inr ys"
  shows "map sol_length ys = map sol_length xs"
proof -
  from map_err_Inr [OF assms] have "list_all2 (\<lambda>x y. apply_swap sedges x = Inr y) xs ys" .
  then have "list_all2 (\<lambda>x y. sol_length y = sol_length x) xs ys"
    by (rule list_all2_mono) (simp add: apply_swap_length)
  then show ?thesis
    by (induction xs ys rule: list_all2_induct) simp_all
qed

lemma sort_key_head_least:
  assumes "sort_key f xs = b # os"
  shows "\<forall>x\<in>set xs. f b \<le> f x"
proof -
  have "sorted (map f (sort_key f xs))" by (rule sorted_sort_key)
  with assms have "\<forall>x\<in>set os. f b \<le> f x" by simp
  moreover have "set xs = set (b # os)" using assms set_sort [of f xs] by simp
  ultimately show ?thesis by auto
qed

lemma tie_sort_set:
  assumes "length rs = length xs"
  shows "set (map fst (sort_key k (zip xs rs))) = set xs"
proof -
  have "set (map fst (sort_key k (zip xs rs))) = fst ` set (zip xs rs)" by simp
  also have "\<dots> = set (map fst (zip xs rs))" by simp
  also have "\<dots> = set xs" using assms by simp
  finally show ?thesis .
qed

lemma tie_sort_sorted:
  "sorted (map sol_length (map fst (sort_key (\<lambda>(s, r :: rat). (sol_length s, r)) xs)))"
proof -
  let ?k = "\<lambda>(s, r :: rat). (sol_length s, r)"
  have "sorted (map ?k (sort_key ?k xs))" by (rule sorted_sort_key)
  then have "sorted_wrt (\<lambda>a b. ?k a \<le> ?k b) (sort_key ?k xs)"
    by (simp add: sorted_wrt_map)
  then have "sorted_wrt (\<lambda>a b. sol_length (fst a) \<le> sol_length (fst b)) (sort_key ?k xs)"
    by (rule sorted_wrt_mono_rel [rotated]) (auto simp: less_eq_prod_def)
  then show ?thesis by (simp add: sorted_wrt_map comp_def)
qed

lemma search_round_parts:
  assumes "search_round kept multiplications sedges edgeWeights orc solutions = Inr solutions'"
  shows "\<exists>proposed best others selected rebuilt.
           map_err (proposals_of multiplications edgeWeights) (zip solutions (swap_samples orc))
             = Inr proposed
         \<and> sort_key sol_length (solutions @ concat proposed) = best # others
         \<and> best \<in> set selected \<and> set selected \<subseteq> set (best # others)
         \<and> map_err (apply_swap sedges) selected = Inr rebuilt
         \<and> length (tie_keys orc) = length rebuilt
         \<and> solutions' = map fst (sort_key (\<lambda>(s, r). (sol_length s, r)) (zip rebuilt (tie_keys orc)))"
proof -
  from assms obtain proposed where
      p: "map_err (proposals_of multiplications edgeWeights) (zip solutions (swap_samples orc))
            = Inr proposed"
    by (auto simp: search_round_def split: if_splits sum.splits)
  from assms p obtain best others where
      n: "sort_key sol_length (solutions @ concat proposed) = best # others"
    by (auto simp: search_round_def split: if_splits list.splits)
  define selected where "selected =
     (if kept > 1
      then best # take (nat (kept - 1)) (sort_key sol_length (map (\<lambda>i. others ! i) (kept_sample orc)))
      else [best])"
  from assms p n have v: "kept > 1 \<longrightarrow> valid_sample (length others) (kept_sample orc)"
    by (auto simp: search_round_def split: if_splits)
  from assms p n v obtain rebuilt where
      r: "map_err (apply_swap sedges) selected = Inr rebuilt"
    by (auto simp: search_round_def selected_def Let_def split: if_splits sum.splits)
  from assms p n v r have t: "length (tie_keys orc) = length rebuilt"
      and s': "solutions' = map fst (sort_key (\<lambda>(s, r). (sol_length s, r)) (zip rebuilt (tie_keys orc)))"
    by (auto simp: search_round_def selected_def Let_def split: if_splits)
  have b: "best \<in> set selected" by (simp add: selected_def)
  have "set (take (nat (kept - 1)) (sort_key sol_length (map (\<lambda>i. others ! i) (kept_sample orc))))
      \<subseteq> set (map (\<lambda>i. others ! i) (kept_sample orc))"
    using set_take_subset [of "nat (kept - 1)"
        "sort_key sol_length (map (\<lambda>i. others ! i) (kept_sample orc))"] by simp
  moreover have "kept > 1 \<longrightarrow> set (map (\<lambda>i. others ! i) (kept_sample orc)) \<subseteq> set others"
    using v by (auto simp: valid_sample_def list_all_iff)
  ultimately have sub: "set selected \<subseteq> set (best # others)"
    by (auto simp: selected_def)
  from p n b sub r t s' show ?thesis by blast
qed

lemma search_round_best:
  assumes "search_round kept multiplications sedges edgeWeights orc solutions = Inr solutions'"
  shows "solutions \<noteq> [] \<and> solutions' \<noteq> []
       \<and> best_length solutions' \<le> best_length solutions
       \<and> sol_length (hd solutions') = best_length solutions'"
proof -
  from search_round_parts [OF assms] obtain proposed best others selected rebuilt where
      p: "map_err (proposals_of multiplications edgeWeights) (zip solutions (swap_samples orc))
            = Inr proposed"
      and n: "sort_key sol_length (solutions @ concat proposed) = best # others"
      and b: "best \<in> set selected" and sub: "set selected \<subseteq> set (best # others)"
      and r: "map_err (apply_swap sedges) selected = Inr rebuilt"
      and t: "length (tie_keys orc) = length rebuilt"
      and s': "solutions' = map fst (sort_key (\<lambda>(s, r). (sol_length s, r)) (zip rebuilt (tie_keys orc)))"
    by blast
  have ne: "solutions \<noteq> []"
  proof
    assume "solutions = []"
    with p have "proposed = []" by simp
    with \<open>solutions = []\<close> n show False by simp
  qed
  have least: "\<forall>x\<in>set (solutions @ concat proposed). sol_length best \<le> sol_length x"
    using n by (rule sort_key_head_least)
  have all: "set (best # others) = set (solutions @ concat proposed)"
    using n set_sort [of sol_length "solutions @ concat proposed"] by simp
  have sel_least: "\<forall>x\<in>set selected. sol_length best \<le> sol_length x"
    using sub all least by blast
  have lens: "map sol_length rebuilt = map sol_length selected"
    using r by (rule rebuilt_lengths)
  have set': "set solutions' = set rebuilt"
    unfolding s' using t by (rule tie_sort_set)
  have img: "sol_length ` set solutions' = sol_length ` set selected"
  proof -
    have "sol_length ` set solutions' = set (map sol_length rebuilt)" using set' by simp
    also have "\<dots> = set (map sol_length selected)" using lens by simp
    finally show ?thesis by simp
  qed
  have min': "best_length solutions' = sol_length best"
    unfolding best_length_def
  proof (rule Min_eqI)
    show "finite (set (map sol_length solutions'))" by simp
    show "\<And>y. y \<in> set (map sol_length solutions') \<Longrightarrow> sol_length best \<le> y"
      using img sel_least by auto
    show "sol_length best \<in> set (map sol_length solutions')"
      using img b by auto
  qed
  have ne': "solutions' \<noteq> []"
    using img b by auto
  have le: "sol_length best \<le> best_length solutions"
    unfolding best_length_def using ne least by (auto intro!: Min.boundedI)
  have srt: "sorted (map sol_length solutions')"
    unfolding s' by (rule tie_sort_sorted)
  have hd_le: "\<forall>x\<in>set solutions'. sol_length (hd solutions') \<le> sol_length x"
    using srt ne' by (cases solutions') auto
  have "sol_length (hd solutions') = best_length solutions'"
    unfolding best_length_def
  proof (rule Min_eqI [symmetric])
    show "finite (set (map sol_length solutions'))" by simp
    show "\<And>y. y \<in> set (map sol_length solutions') \<Longrightarrow> sol_length (hd solutions') \<le> y"
      using hd_le by auto
    show "sol_length (hd solutions') \<in> set (map sol_length solutions')"
      using ne' by simp
  qed
  with ne ne' min' le show ?thesis by simp
qed

lemma search_rounds_best:
  assumes "search_rounds kept multiplications sedges edgeWeights orc swapCount remaining solutions
             = Inr solutions'"
    and "solutions \<noteq> []"
  shows "solutions' \<noteq> [] \<and> best_length solutions' \<le> best_length solutions"
  using assms
proof (induction remaining arbitrary: swapCount solutions)
  case 0
  then show ?case by simp
next
  case (Suc remaining)
  show ?case
  proof (cases "orc swapCount")
    case None
    with Suc.prems show ?thesis by simp
  next
    case (Some choices)
    with Suc.prems(1) obtain mid where
        m: "search_round kept multiplications sedges edgeWeights choices solutions = Inr mid"
        and r: "search_rounds kept multiplications sedges edgeWeights orc (Suc swapCount) remaining mid
                  = Inr solutions'"
      by (auto split: sum.splits)
    from search_round_best [OF m] have "mid \<noteq> []" "best_length mid \<le> best_length solutions"
      by simp_all
    moreover from Suc.IH [OF r \<open>mid \<noteq> []\<close>]
    have "solutions' \<noteq> []" "best_length solutions' \<le> best_length mid" by simp_all
    ultimately show ?thesis by simp
  qed
qed

text \<open>
  The length that the loop holds for the first candidate of the population does not grow:
  in every round that completes, the population is not empty before and after, the least
  held length of the kept population is not greater than the least held length of the
  population before the round, and the first candidate of the kept population has it.
\<close>

lemma held_length_non_increasing:
  "(search_round kept multiplications sedges edgeWeights choices solutions = Inr solutions' \<longrightarrow>
      solutions \<noteq> [] \<and> solutions' \<noteq> []
      \<and> best_length solutions' \<le> best_length solutions
      \<and> sol_length (hd solutions') = best_length solutions')
   \<and> (search_rounds kept multiplications sedges edgeWeights orc swapCount remaining population
         = Inr population' \<and> population \<noteq> [] \<longrightarrow>
      population' \<noteq> [] \<and> best_length population' \<le> best_length population)"
  using search_round_best [of kept multiplications sedges edgeWeights choices solutions solutions']
    search_rounds_best [of kept multiplications sedges edgeWeights orc swapCount remaining
      population population']
  by blast

text \<open>
  C5. The code evaluated on the trips 0: A to B (480 to 510), 1: B to C (520 to 550) and
  2: D to D (540 to 570), with one round and the default \<open>kept = 30\<close> and
  \<open>multiplications = 5\<close>, from the duties \<open>[0, 1]\<close> and \<open>[2]\<close>: the feasible edge
  \<open>(0, 1)\<close> is the cheaper one of the two and is the one chained, and the depot then
  selected is C. The deadhead time of these duties is
  60.01. The only possible swap moves trip 2 behind trip 0 and leaves trip 1 alone. The
  return edge of the new duty \<open>[1]\<close>, from C back to B, costs 50, but it is not among the
  cached weights (the feasible edges and their reversals), and \<open>EvaluateSwapDiffShort\<close>
  counts an edge that is not cached as 0. So the loop holds the length 50.01 for the new
  candidate, puts it first and returns its duties \<open>[0, 2]\<close> and \<open>[1]\<close>, whose deadhead
  time is 100.01: the best candidate has been replaced by a strictly worse one.
\<close>

theorem search_round_keeps_worse_duties:
  "CreateFeasibilityGraph ex_search_trips ex_search_stops ex_search_dists 24 = Inr [(0, 1), (0, 2)]
   \<and> ConvertEdgesToBuses 3 [(0, 1)] = Some [[0, 1], [2]]
   \<and> bestDepotHeur [[0, 1], [2]] ex_search_trips ex_search_stops ex_search_dists = Inr 2
   \<and> cached_weights [(0, 1), (0, 2)] ex_search_trips ex_search_stops ex_search_dists
       = Inr [((0, 1), 1 / 100), ((0, 2), 2001 / 100), ((1, 0), 60), ((2, 0), 30)]
   \<and> initial_swaps [(0, 1), (0, 2)] [[0, 1], [2]] = Inr [(0, 0, 1, - 1)]
   \<and> EvaluateLength [[0, 1], [2]] ex_search_trips ex_search_dists ex_search_stops = Inr (6001 / 100)
   \<and> local_search ex_search_trips ex_search_dists ex_search_stops [[0, 1], [2]] 1 30 5
        (\<lambda>i. Some ex_search_choices) = Inr ([[0, 2], [1]], 5001 / 100)
   \<and> EvaluateLength [[0, 2], [1]] ex_search_trips ex_search_dists ex_search_stops = Inr (10001 / 100)
   \<and> GetDistFromEdge (1, 1) ex_search_trips ex_search_stops ex_search_dists None 0 0 = Inr 50"
proof -
  note ev = GetDistFromEdge_def edge_from_def edge_to_def edge_penalty_def waitingTime_def
    int64_sub_def int64_def fits_int64_def py_index_def np_index2_def dict_get_def
    ex_search_trips_def ex_search_stops_def ex_search_dists_def ex_trip_def
  have g: "GetDistFromEdge (0, 1) ex_search_trips ex_search_stops ex_search_dists None 0 0 = Inr (1 / 100)"
    "GetDistFromEdge (0, 2) ex_search_trips ex_search_stops ex_search_dists None 0 0 = Inr (2001 / 100)"
    "GetDistFromEdge (1, 0) ex_search_trips ex_search_stops ex_search_dists None 0 0 = Inr 60"
    "GetDistFromEdge (2, 0) ex_search_trips ex_search_stops ex_search_dists None 0 0 = Inr 30"
    "GetDistFromEdge (1, 1) ex_search_trips ex_search_stops ex_search_dists None 0 0 = Inr 50"
    "GetDistFromEdge (2, 2) ex_search_trips ex_search_stops ex_search_dists None 0 0 = Inr 0"
    by (simp_all add: ev)
  have f: "CreateFeasibilityGraph ex_search_trips ex_search_stops ex_search_dists 24
      = Inr [(0, 1), (0, 2)]"
    by (simp add: CreateFeasibilityGraph_def can_follow_def stop_distance_def dict_index_def
        dict_get_def np_index2_def py_index_def int64_add_def int64_def fits_int64_def
        ex_search_trips_def ex_search_stops_def ex_search_dists_def ex_trip_def upt_rec)
  have st: "enumerate_stops (map fst ex_search_stops) = ex_search_stops"
    by (simp add: enumerate_stops_def ex_search_stops_def)
  have w: "cached_weights [(0, 1), (0, 2)] ex_search_trips ex_search_stops ex_search_dists
       = Inr [((0, 1), 1 / 100), ((0, 2), 2001 / 100), ((1, 0), 60), ((2, 0), 30)]"
    by (simp add: cached_weights_def CreateDeadheadMap_def st g)
  have sw: "initial_swaps [(0, 1), (0, 2)] [[0, 1], [2]] = Inr [(0, 0, 1, - 1)]"
    by (simp add: initial_swaps_def swaps_of_pair_def swaps_with_bus_def cut_points_def
        trip_before_def trip_after_def py_index_def in_edges_def swap_allowed_def set_add_def
        upt_rec)
  have l0: "EvaluateLength [[0, 1], [2]] ex_search_trips ex_search_dists ex_search_stops
      = Inr (6001 / 100)"
    using g by (simp add: EvaluateLength_def py_index_def upt_rec)
  have l1: "EvaluateLength [[0, 2], [1]] ex_search_trips ex_search_dists ex_search_stops
      = Inr (10001 / 100)"
    using g by (simp add: EvaluateLength_def py_index_def upt_rec)
  have r: "search_round 30 5 [(0, 1), (0, 2)]
        [((0, 1), 1 / 100), ((0, 2), 2001 / 100), ((1, 0), 60), ((2, 0), 30)] ex_search_choices
        [\<lparr>sol_swap = None, sol_buses = [[0, 1], [2]], sol_length = 6001 / 100,
          sol_swaps = [(0, 0, 1, - 1)]\<rparr>]
      = Inr [\<lparr>sol_swap = None, sol_buses = [[0, 2], [1]], sol_length = 5001 / 100, sol_swaps = []\<rparr>,
             \<lparr>sol_swap = None, sol_buses = [[0, 1], [2]], sol_length = 6001 / 100,
               sol_swaps = [(0, 0, 1, - 1)]\<rparr>]"
    by code_simp
  have ls: "local_search ex_search_trips ex_search_dists ex_search_stops [[0, 1], [2]] 1 30 5
        (\<lambda>i. Some ex_search_choices) = Inr ([[0, 2], [1]], 5001 / 100)"
    by (simp add: local_search_def l0 f w sw r sort_duties_def duty_key_def)
  have c: "ConvertEdgesToBuses 3 [(0, 1)] = Some [[0, 1], [2]]"
    by code_simp
  have e: "evalDepot [[0, 1], [2]] ex_search_trips ex_search_stops ex_search_dists 0 = Inr 110"
    "evalDepot [[0, 1], [2]] ex_search_trips ex_search_stops ex_search_dists 1 = Inr 90"
    "evalDepot [[0, 1], [2]] ex_search_trips ex_search_stops ex_search_dists 2 = Inr 30"
    "evalDepot [[0, 1], [2]] ex_search_trips ex_search_stops ex_search_dists 3 = Inr 30"
    by (simp_all add: evalDepot_def ev)
  have b: "bestDepotHeur [[0, 1], [2]] ex_search_trips ex_search_stops ex_search_dists = Inr 2"
    unfolding bestDepotHeur_def using e by (simp add: ex_search_stops_def)
  from f c b w sw l0 ls l1 g(5) show ?thesis by simp
qed
section \<open>Properties of the serialization\<close>
























section \<open>Properties of the exact solver's failure branch\<close>

text \<open>
  C7. When the optimization ends with the status infeasible or no-solution-found, the
  solver part raises the exception \<open>No solution found\<close> and returns no schedule; the file
  \<open>model.sol\<close> then holds one line for every variable of the model with its raw value, in
  the order of the variables, and the objective value as last line.
\<close>

theorem no_solution_is_hard_error:
  assumes "status = INFEASIBLE \<or> status = NO_SOLUTION_FOUND"
  shows "snd (OptimizeTripsCircularsExact_result status vars objective_value trips buscount files)
           = Inl (Exception ''No solution found'')
       \<and> fst (OptimizeTripsCircularsExact_result status vars objective_value trips buscount files)
             ''model.sol''
           = Some (map (\<lambda>v. RawValue (var_name v) (var_x v)) vars @ [ObjectiveValue objective_value])
       \<and> (\<forall>name. name \<noteq> ''model.sol'' \<longrightarrow>
             fst (OptimizeTripsCircularsExact_result status vars objective_value trips buscount files)
               name = files name)"
  using assms by (auto simp: OptimizeTripsCircularsExact_result_def)

theorem no_solution_is_hard_error_witness:
  "(INFEASIBLE = INFEASIBLE \<or> INFEASIBLE = NO_SOLUTION_FOUND)
   \<and> snd (OptimizeTripsCircularsExact_result INFEASIBLE
            [\<lparr>var_name = (0, 0, 1), var_x = None\<rparr>, \<lparr>var_name = (0, 1, 0), var_x = Some (1 / 2)\<rparr>]
            None [] 1 Map.empty)
       = Inl (Exception ''No solution found'')
   \<and> fst (OptimizeTripsCircularsExact_result INFEASIBLE
            [\<lparr>var_name = (0, 0, 1), var_x = None\<rparr>, \<lparr>var_name = (0, 1, 0), var_x = Some (1 / 2)\<rparr>]
            None [] 1 Map.empty) ''model.sol''
       = Some [RawValue (0, 0, 1) None, RawValue (0, 1, 0) (Some (1 / 2)), ObjectiveValue None]"
  using no_solution_is_hard_error [of INFEASIBLE
      "[\<lparr>var_name = (0, 0, 1), var_x = None\<rparr>, \<lparr>var_name = (0, 1, 0), var_x = Some (1 / 2)\<rparr>]"
      None "[]" 1 Map.empty]
  by simp


end
